theory Spec2Isabelle
  imports Complex_Main "HOL-Library.Word"
begin

section \<open>JavaScript numbers\<close>

text \<open>
  Every number a caller passes (\<open>v.number()\<close>) or a token row stores is an IEEE-754
  binary64 value: not-a-number, an infinity, or a finite value, read as the real it
  denotes (\<open>-0\<close> is read as \<open>0\<close>). A finite result of \<open>+\<close> or \<open>*\<close> is the exact result
  when that is a binary64 value, and otherwise what the platform's rounding makes of it.
  The rounding belongs to the platform and is a parameter, as is the order that a
  database filter (\<open>q.lt\<close>) puts on stored numbers.
\<close>

datatype number = NaN | NegInf | Fin real | PosInf

record platform =
  rnd :: "real \<Rightarrow> number"
  db_lt :: "number \<Rightarrow> number \<Rightarrow> bool"

text \<open>The finite binary64 values: a significand below \<open>2^53\<close> and a binary exponent.\<close>

definition representable :: "real \<Rightarrow> bool" where
  "representable x =
     (\<exists>m e :: int. \<bar>m\<bar> < 2 ^ 53 \<and> - 1074 \<le> e \<and> e \<le> 971 \<and> x = of_int m * 2 powr of_int e)"

definition round64 :: "platform \<Rightarrow> real \<Rightarrow> number" where
  "round64 p x = (if representable x then Fin x else rnd p x)"

text \<open>The comparisons \<open><\<close>, \<open>>\<close>, \<open><=\<close>, \<open>>=\<close>: each is false when an operand is \<open>NaN\<close>.\<close>

fun num_lt :: "number \<Rightarrow> number \<Rightarrow> bool" where
  "num_lt NaN y = False"
| "num_lt x NaN = False"
| "num_lt (Fin a) (Fin b) = (a < b)"
| "num_lt NegInf NegInf = False"
| "num_lt NegInf y = True"
| "num_lt x NegInf = False"
| "num_lt PosInf y = False"
| "num_lt x PosInf = True"

definition num_gt :: "number \<Rightarrow> number \<Rightarrow> bool" where
  "num_gt x y = num_lt y x"

definition num_le :: "number \<Rightarrow> number \<Rightarrow> bool" where
  "num_le x y = (x \<noteq> NaN \<and> y \<noteq> NaN \<and> \<not> num_lt y x)"

definition num_ge :: "number \<Rightarrow> number \<Rightarrow> bool" where
  "num_ge x y = num_le y x"

text \<open>The operators \<open>+\<close> and \<open>*\<close>, and \<open>Math.max\<close> of two arguments.\<close>

fun fadd :: "platform \<Rightarrow> number \<Rightarrow> number \<Rightarrow> number" where
  "fadd p NaN y = NaN"
| "fadd p x NaN = NaN"
| "fadd p (Fin a) (Fin b) = round64 p (a + b)"
| "fadd p PosInf NegInf = NaN"
| "fadd p NegInf PosInf = NaN"
| "fadd p PosInf y = PosInf"
| "fadd p x PosInf = PosInf"
| "fadd p NegInf y = NegInf"
| "fadd p x NegInf = NegInf"

fun num_sign :: "number \<Rightarrow> int" where
  "num_sign NaN = 0"
| "num_sign NegInf = - 1"
| "num_sign PosInf = 1"
| "num_sign (Fin a) = (if a < 0 then - 1 else if a = 0 then 0 else 1)"

fun fmul :: "platform \<Rightarrow> number \<Rightarrow> number \<Rightarrow> number" where
  "fmul p (Fin a) (Fin b) = round64 p (a * b)"
| "fmul p x y =
     (if num_sign x = 0 \<or> num_sign y = 0 then NaN
      else if num_sign x = num_sign y then PosInf else NegInf)"

definition fmax :: "number \<Rightarrow> number \<Rightarrow> number" where
  "fmax x y = (if x = NaN \<or> y = NaN then NaN else if num_lt x y then y else x)"

text \<open>A reading of \<open>Date.now()\<close> is a natural number of milliseconds, exact as a number.\<close>

definition of_clock :: "nat \<Rightarrow> number" where
  "of_clock now = Fin (real now)"

text \<open>
  What the platform's rounding guarantees beyond exactness: it is monotone, so in
  particular it never yields \<open>NaN\<close>.
\<close>

definition monotone_rounding :: "platform \<Rightarrow> bool" where
  "monotone_rounding p = (\<forall>x y. x \<le> y \<longrightarrow> num_le (round64 p x) (round64 p y))"

section \<open>Ephemeral tokens (convex/tokens.ts)\<close>

text \<open>
  Queries and mutations of the store see one frozen clock value per invocation, so each
  handler takes a single \<open>now\<close>. An optional argument (\<open>v.optional(v.number())\<close>) is a
  \<open>number option\<close>. The fields \<open>createdAt\<close>, \<open>lastUsed\<close> and \<open>deactivatedAt\<close> only ever
  hold clock readings.
\<close>

definition TOKEN_EXPIRATION_MINUTES :: number where
  "TOKEN_EXPIRATION_MINUTES = Fin 60"

definition MAX_SESSIONS_PER_TOKEN :: number where
  "MAX_SESSIONS_PER_TOKEN = Fin 5"

definition MAX_MESSAGES_PER_TOKEN :: number where
  "MAX_MESSAGES_PER_TOKEN = Fin 1000"

text \<open>A row of the table \<open>ephemeralTokens\<close>.\<close>

record token_record =
  token :: string
  userId :: string
  expiresAt :: number
  sessionsUsed :: number
  messagesUsed :: number
  maxSessions :: number
  maxMessages :: number
  isActive :: bool
  createdAt :: nat
  lastUsed :: nat
  deactivatedAt :: "nat option"

text \<open>
  The database: the rows of \<open>users\<close> (only \<open>tokenIdentifier\<close> is read here) and the rows
  of \<open>ephemeralTokens\<close> in creation order. The \<open>_id\<close> of a document is its position in
  the table while one handler runs; no handler keeps an \<open>_id\<close> between invocations.
\<close>

record db =
  users :: "string list"
  ephemeralTokens :: "token_record list"

text \<open>
  \<open>ctx.db.query("ephemeralTokens").withIndex("by_token", q => q.eq("token", t)).first()\<close>:
  the oldest row whose \<open>token\<close> is \<open>t\<close>, with its position, or nothing.
\<close>

fun by_token_first :: "string \<Rightarrow> token_record list \<Rightarrow> (nat \<times> token_record) option" where
  "by_token_first t [] = None"
| "by_token_first t (r # rs) =
     (if token r = t then Some (0, r)
      else map_option (\<lambda>(i, x). (Suc i, x)) (by_token_first t rs))"

text \<open>\<open>ctx.db.patch(id, fields)\<close>: the row at position \<open>i\<close> is rewritten by \<open>f\<close>.\<close>

definition patch :: "nat \<Rightarrow> (token_record \<Rightarrow> token_record) \<Rightarrow> db \<Rightarrow> db" where
  "patch i f d = d\<lparr>ephemeralTokens := (ephemeralTokens d)[i := f (ephemeralTokens d ! i)]\<rparr>"

text \<open>\<open>a || b\<close> on an optional number: \<open>undefined\<close>, \<open>0\<close> and \<open>NaN\<close> are falsy.\<close>

definition or_default :: "number option \<Rightarrow> number \<Rightarrow> number" where
  "or_default a b = (case a of None \<Rightarrow> b | Some n \<Rightarrow> if n = Fin 0 \<or> n = NaN then b else n)"

text \<open>A destructuring default (\<open>{ x = d } = args\<close>) applies to \<open>undefined\<close> only.\<close>

definition arg_default :: "number option \<Rightarrow> number \<Rightarrow> number" where
  "arg_default a b = (case a of None \<Rightarrow> b | Some n \<Rightarrow> n)"

subsection \<open>validateEphemeralToken\<close>

datatype validation =
  Rejected string
  | Accepted string number number number number number

fun isValid :: "validation \<Rightarrow> bool" where
  "isValid (Rejected e) = False"
| "isValid (Accepted u su mu ms mm ex) = True"

text \<open>
  The handler is a query. It is written in state-passing form, returning the database it
  leaves behind, so that the absence of writes is a property of the model.
\<close>

definition validateEphemeralToken :: "db \<Rightarrow> nat \<Rightarrow> string \<Rightarrow> validation \<times> db" where
  "validateEphemeralToken d now t =
     (case by_token_first t (ephemeralTokens d) of
        None \<Rightarrow> (Rejected ''Token not found'', d)
      | Some (i, tokenRecord) \<Rightarrow>
          if \<not> isActive tokenRecord then (Rejected ''Token is deactivated'', d)
          else if num_gt (of_clock now) (expiresAt tokenRecord)
            then (Rejected ''Token expired'', d)
          else if num_ge (sessionsUsed tokenRecord) (maxSessions tokenRecord)
            then (Rejected ''Session limit exceeded'', d)
          else if num_ge (messagesUsed tokenRecord) (maxMessages tokenRecord)
            then (Rejected ''Message limit exceeded'', d)
          else (Accepted (userId tokenRecord) (sessionsUsed tokenRecord)
                  (messagesUsed tokenRecord) (maxSessions tokenRecord)
                  (maxMessages tokenRecord) (expiresAt tokenRecord), d))"

subsection \<open>generateSecureToken\<close>

definition chars :: string where
  "chars = ''ABCDEFGHIJKLMNOPQRSTUVWXYZabcdefghijklmnopqrstuvwxyz0123456789''"

text \<open>
  \<open>result += chars[k]\<close>: an index outside the string reads \<open>undefined\<close>, which the
  concatenation renders as the text "undefined".
\<close>

definition char_at :: "int \<Rightarrow> string" where
  "char_at k = (if 0 \<le> k \<and> k < int (length chars) then [chars ! nat k] else ''undefined'')"

text \<open>
  The random source the function finds: \<open>crypto.getRandomValues\<close> filling the 32 slots
  of the \<open>Uint8Array\<close> (slot \<open>i\<close> receives byte \<open>b i\<close>), or, without the crypto API, the
  successive values of \<open>Math.random()\<close>. The product \<open>Math.random() * chars.length\<close> is taken
  over the reals.
\<close>

datatype entropy =
  CryptoRandom "nat \<Rightarrow> 8 word"
  | MathRandom "nat \<Rightarrow> real"

fun random_part :: "entropy \<Rightarrow> string" where
  "random_part (CryptoRandom randomValues) =
     concat (map (\<lambda>i. char_at (int (unat (randomValues i) mod length chars))) [0..<32])"
| "random_part (MathRandom random) =
     concat (map (\<lambda>i. char_at \<lfloor>random i * real (length chars)\<rfloor>) [0..<32])"

text \<open>
  The decimal rendering of a clock reading inside a template string. A reading of
  \<open>Date.now()\<close> is a non-negative integer far below \<open>10^21\<close>, the range in which
  JavaScript prints a number as its plain decimal digits.
\<close>

definition digit_char :: "nat \<Rightarrow> char" where
  "digit_char n = ''0123456789'' ! (n mod 10)"

fun decimal :: "nat \<Rightarrow> string" where
  "decimal n = (if n < 10 then [digit_char n] else decimal (n div 10) @ [digit_char n])"

declare decimal.simps [simp del]

text \<open>
  What the platform guarantees of the random source: \<open>Math.random()\<close> lies in \<open>[0, 1)\<close>;
  the bytes of \<open>crypto.getRandomValues\<close> are unconstrained.
\<close>

fun random_in_range :: "entropy \<Rightarrow> bool" where
  "random_in_range (CryptoRandom randomValues) = True"
| "random_in_range (MathRandom random) = list_all (\<lambda>i. 0 \<le> random i \<and> random i < 1) [0..<32]"

definition generateSecureToken :: "entropy \<Rightarrow> nat \<Rightarrow> string" where
  "generateSecureToken ent now = ''glt_'' @ random_part ent @ ''_'' @ decimal now"

text \<open>
  The format the specification fixes for a secret, \<open>^glt_[A-Za-z0-9]{32}_[0-9]+$\<close>, written
  from the pattern itself: the prefix, exactly 32 letters or digits, an underscore, and
  one or more digits up to the end.
\<close>

definition is_alnum :: "char \<Rightarrow> bool" where
  "is_alnum c = (let n = (of_char c :: nat) in
     (65 \<le> n \<and> n \<le> 90) \<or> (97 \<le> n \<and> n \<le> 122) \<or> (48 \<le> n \<and> n \<le> 57))"

definition is_digit :: "char \<Rightarrow> bool" where
  "is_digit c = (let n = (of_char c :: nat) in 48 \<le> n \<and> n \<le> 57)"

definition matches_secret_pattern :: "string \<Rightarrow> bool" where
  "matches_secret_pattern s =
     (take 4 s = ''glt_'' \<and>
      length (take 32 (drop 4 s)) = 32 \<and> list_all is_alnum (take 32 (drop 4 s)) \<and>
      take 1 (drop 36 s) = ''_'' \<and>
      drop 37 s \<noteq> [] \<and> list_all is_digit (drop 37 s))"

subsection \<open>The mutations\<close>

text \<open>
  A mutation that throws leaves the database as it was; it returns \<open>Inl\<close> of the error.
  Every handler below throws before its first write.
\<close>

datatype error = Error string

datatype generated =
  Generated (g_token: string) (g_expiresAt: number) (g_maxSessions: number)
    (g_maxMessages: number) (g_tokenId: nat)

definition generateEphemeralToken ::
  "platform \<Rightarrow> db \<Rightarrow> nat \<Rightarrow> entropy \<Rightarrow> string \<Rightarrow> number option \<Rightarrow> number option
   \<Rightarrow> number option \<Rightarrow> (error + generated) \<times> db" where
  "generateEphemeralToken p d now ent uid maxS maxM expirationMinutes =
     (if uid \<notin> set (users d) then (Inl (Error ''User not found''), d)
      else
        let expirationTime = or_default expirationMinutes TOKEN_EXPIRATION_MINUTES;
            expAt = fadd p (of_clock now) (fmul p (fmul p expirationTime (Fin 60)) (Fin 1000));
            tok = generateSecureToken ent now;
            tokenId = length (ephemeralTokens d)
        in (Inr (Generated tok expAt (or_default maxS MAX_SESSIONS_PER_TOKEN)
                   (or_default maxM MAX_MESSAGES_PER_TOKEN) tokenId),
            d\<lparr>ephemeralTokens := ephemeralTokens d @
              [\<lparr>token = tok, userId = uid, expiresAt = expAt,
                sessionsUsed = Fin 0, messagesUsed = Fin 0,
                maxSessions = or_default maxS MAX_SESSIONS_PER_TOKEN,
                maxMessages = or_default maxM MAX_MESSAGES_PER_TOKEN,
                isActive = True, createdAt = now, lastUsed = now,
                deactivatedAt = None\<rparr>]\<rparr>))"

datatype usage =
  Usage (u_sessionsUsed: number) (u_messagesUsed: number) (u_maxSessions: number)
    (u_maxMessages: number)

definition updateTokenUsage ::
  "platform \<Rightarrow> db \<Rightarrow> nat \<Rightarrow> string \<Rightarrow> number option \<Rightarrow> number option
   \<Rightarrow> (error + usage) \<times> db" where
  "updateTokenUsage p d now t incS incM =
     (let incrementSessions = arg_default incS (Fin 0);
          incrementMessages = arg_default incM (Fin 0)
      in case by_token_first t (ephemeralTokens d) of
           None \<Rightarrow> (Inl (Error ''Token not found''), d)
         | Some (i, tokenRecord) \<Rightarrow>
             let newSessionsUsed = fadd p (sessionsUsed tokenRecord) incrementSessions;
                 newMessagesUsed = fadd p (messagesUsed tokenRecord) incrementMessages
             in (Inr (Usage newSessionsUsed newMessagesUsed (maxSessions tokenRecord)
                        (maxMessages tokenRecord)),
                 patch i (\<lambda>x. x\<lparr>sessionsUsed := newSessionsUsed,
                                 messagesUsed := newMessagesUsed,
                                 lastUsed := now\<rparr>) d))"

datatype refreshed =
  Refreshed (r_token: string) (r_expiresAt: number) (r_sessionsUsed: number)
    (r_messagesUsed: number)

definition refreshEphemeralToken ::
  "platform \<Rightarrow> db \<Rightarrow> nat \<Rightarrow> string \<Rightarrow> number option \<Rightarrow> (error + refreshed) \<times> db" where
  "refreshEphemeralToken p d now t addMin =
     (let additionalMinutes = arg_default addMin TOKEN_EXPIRATION_MINUTES
      in case by_token_first t (ephemeralTokens d) of
           None \<Rightarrow> (Inl (Error ''Token not found''), d)
         | Some (i, tokenRecord) \<Rightarrow>
             if \<not> isActive tokenRecord then (Inl (Error ''Cannot refresh inactive token''), d)
             else
               let newExpiresAt =
                     fmax (fadd p (of_clock now)
                             (fmul p (fmul p additionalMinutes (Fin 60)) (Fin 1000)))
                          (fadd p (expiresAt tokenRecord)
                             (fmul p (fmul p additionalMinutes (Fin 60)) (Fin 1000)))
               in (Inr (Refreshed t newExpiresAt (sessionsUsed tokenRecord)
                          (messagesUsed tokenRecord)),
                   patch i (\<lambda>x. x\<lparr>expiresAt := newExpiresAt, lastUsed := now\<rparr>) d))"

datatype deactivated =
  Deactivated (d_success: bool) (d_token: string)

definition deactivateEphemeralToken ::
  "db \<Rightarrow> nat \<Rightarrow> string \<Rightarrow> (error + deactivated) \<times> db" where
  "deactivateEphemeralToken d now t =
     (case by_token_first t (ephemeralTokens d) of
        None \<Rightarrow> (Inl (Error ''Token not found''), d)
      | Some (i, tokenRecord) \<Rightarrow>
          (Inr (Deactivated True t),
           patch i (\<lambda>x. x\<lparr>isActive := False, deactivatedAt := Some now\<rparr>) d))"

datatype cleaned =
  Cleaned (c_cleaned: nat) (c_timestamp: nat)

definition is_expired_or_inactive :: "platform \<Rightarrow> nat \<Rightarrow> token_record \<Rightarrow> bool" where
  "is_expired_or_inactive p now r = (db_lt p (expiresAt r) (of_clock now) \<or> isActive r = False)"

definition cleanupExpiredTokens :: "platform \<Rightarrow> db \<Rightarrow> nat \<Rightarrow> cleaned \<times> db" where
  "cleanupExpiredTokens p d now =
     (let expiredTokens = filter (is_expired_or_inactive p now) (ephemeralTokens d)
      in (Cleaned (length expiredTokens) now,
          d\<lparr>ephemeralTokens :=
              filter (\<lambda>r. \<not> is_expired_or_inactive p now r) (ephemeralTokens d)\<rparr>))"

subsection \<open>Sequences of token operations\<close>

text \<open>
  The operations of the token service, each with the clock reading of its invocation. A
  call that throws leaves the database as it was.
\<close>

datatype operation =
  Generate entropy string "number option" "number option" "number option"
  | Validate string
  | UpdateUsage string "number option" "number option"
  | Refresh string "number option"
  | Deactivate string
  | Cleanup

fun exec :: "platform \<Rightarrow> db \<Rightarrow> nat \<times> operation \<Rightarrow> db" where
  "exec p d (now, Generate ent uid maxS maxM expirationMinutes) =
     snd (generateEphemeralToken p d now ent uid maxS maxM expirationMinutes)"
| "exec p d (now, Validate t) = snd (validateEphemeralToken d now t)"
| "exec p d (now, UpdateUsage t incS incM) = snd (updateTokenUsage p d now t incS incM)"
| "exec p d (now, Refresh t addMin) = snd (refreshEphemeralToken p d now t addMin)"
| "exec p d (now, Deactivate t) = snd (deactivateEphemeralToken d now t)"
| "exec p d (now, Cleanup) = snd (cleanupExpiredTokens p d now)"

definition run :: "platform \<Rightarrow> db \<Rightarrow> (nat \<times> operation) list \<Rightarrow> db" where
  "run p d ops = foldl (exec p) d ops"

text \<open>The quota invariant of the specification, for one row and for the table.\<close>

definition row_within_quota :: "token_record \<Rightarrow> bool" where
  "row_within_quota r =
     (num_le (sessionsUsed r) (maxSessions r) \<and> num_le (messagesUsed r) (maxMessages r))"

definition within_quota :: "db \<Rightarrow> bool" where
  "within_quota d = list_all row_within_quota (ephemeralTokens d)"

text \<open>
  A whole number of magnitude at most \<open>2^53\<close>, the range in which \<open>+ 1\<close> is exact; a row
  whose counters and bounds are such numbers.
\<close>

definition safe_integer :: "number \<Rightarrow> bool" where
  "safe_integer x =
     (case x of Fin a \<Rightarrow> a = of_int \<lfloor>a\<rfloor> \<and> \<bar>a\<bar> \<le> 2 ^ 53 | _ \<Rightarrow> False)"

definition row_integral :: "token_record \<Rightarrow> bool" where
  "row_integral r =
     (safe_integer (sessionsUsed r) \<and> safe_integer (messagesUsed r) \<and>
      safe_integer (maxSessions r) \<and> safe_integer (maxMessages r))"

definition integral :: "db \<Rightarrow> bool" where
  "integral d = list_all row_integral (ephemeralTokens d)"

text \<open>
  The discipline under which the callers of this repository use the ledger. A token is
  generated with bounds that are whole numbers and not negative. \<open>updateTokenUsage\<close> is
  the operation right after a \<open>validateEphemeralToken\<close> that accepted the same secret,
  and adds 0 or 1 to each counter (as \<open>create_session\<close> and \<open>send_message\<close> do).
  \<open>accepted_by\<close> is the secret the operation, when it is a validation, accepts.
\<close>

definition whole_bound :: "number \<Rightarrow> bool" where
  "whole_bound x = (safe_integer x \<and> num_le (Fin 0) x)"

definition unit_increment :: "number \<Rightarrow> bool" where
  "unit_increment x = (x = Fin 0 \<or> x = Fin 1)"

fun accepted_by :: "db \<Rightarrow> nat \<times> operation \<Rightarrow> string option" where
  "accepted_by d (now, Validate t) =
     (if isValid (fst (validateEphemeralToken d now t)) then Some t else None)"
| "accepted_by d (now, opn) = None"

fun disciplined :: "string option \<Rightarrow> nat \<times> operation \<Rightarrow> bool" where
  "disciplined v (now, Generate ent uid maxS maxM expirationMinutes) =
     (whole_bound (or_default maxS MAX_SESSIONS_PER_TOKEN) \<and>
      whole_bound (or_default maxM MAX_MESSAGES_PER_TOKEN))"
| "disciplined v (now, UpdateUsage t incS incM) =
     (v = Some t \<and> unit_increment (arg_default incS (Fin 0)) \<and>
      unit_increment (arg_default incM (Fin 0)))"
| "disciplined v (now, Validate t) = True"
| "disciplined v (now, Refresh t addMin) = True"
| "disciplined v (now, Deactivate t) = True"
| "disciplined v (now, Cleanup) = True"

text \<open>
  \<open>disciplined_run p v d ops\<close>: the run \<open>ops\<close> from database \<open>d\<close> keeps the discipline,
  \<open>v\<close> being the secret that the operation just before accepted.
\<close>

fun disciplined_run ::
  "platform \<Rightarrow> string option \<Rightarrow> db \<Rightarrow> (nat \<times> operation) list \<Rightarrow> bool" where
  "disciplined_run p v d [] = True"
| "disciplined_run p v d (x # xs) =
     (disciplined v x \<and> disciplined_run p (accepted_by d x) (exec p d x) xs)"

text \<open>
  \<open>has_room v d\<close>: the row of the secret \<open>v\<close> just accepted passes the two quota checks
  in \<open>d\<close>.
\<close>

definition has_room :: "string option \<Rightarrow> db \<Rightarrow> bool" where
  "has_room v d =
     (case v of
        None \<Rightarrow> True
      | Some t \<Rightarrow>
          (case by_token_first t (ephemeralTokens d) of
             None \<Rightarrow> False
           | Some (i, r) \<Rightarrow>
               \<not> num_ge (sessionsUsed r) (maxSessions r) \<and>
               \<not> num_ge (messagesUsed r) (maxMessages r)))"

section \<open>The session proxy (geminiLiveProxy)\<close>

text \<open>
  A connection of the realtime provider is an opaque handle. \<open>activeSessions\<close> is a
  JavaScript \<open>Map\<close>: an association list in insertion order. The proxy's state is the
  database, the session map, the connections on which \<open>close()\<close> has been called (in call
  order) and the session ids for which a failing \<open>close()\<close> was caught and logged.
\<close>

type_synonym connection = nat

record GeminiSession =
  sessionId :: string
  sessionUserId :: string
  geminiConnection :: connection
  sessionIsActive :: bool
  sessionCreatedAt :: nat
  lastActivity :: nat

record proxy_state =
  database :: db
  activeSessions :: "(string \<times> GeminiSession) list"
  closeCalls :: "connection list"
  closeErrors :: "string list"

text \<open>\<open>Map.get\<close>, \<open>Map.set\<close> (an existing key keeps its place) and \<open>Map.delete\<close>.\<close>

definition map_get :: "string \<Rightarrow> (string \<times> GeminiSession) list \<Rightarrow> GeminiSession option" where
  "map_get k m = map_of m k"

definition map_set ::
  "string \<Rightarrow> GeminiSession \<Rightarrow> (string \<times> GeminiSession) list \<Rightarrow> (string \<times> GeminiSession) list" where
  "map_set k v m =
     (if k \<in> set (map fst m) then map (\<lambda>(k', v'). if k' = k then (k', v) else (k', v')) m
      else m @ [(k, v)])"

definition map_delete :: "string \<Rightarrow> (string \<times> GeminiSession) list \<Rightarrow> (string \<times> GeminiSession) list" where
  "map_delete k m = filter (\<lambda>(k', v'). k' \<noteq> k) m"

text \<open>A string read from the request is falsy when it is missing or empty.\<close>

definition truthy :: "string option \<Rightarrow> bool" where
  "truthy s = (case s of None \<Rightarrow> False | Some x \<Rightarrow> x \<noteq> [])"

datatype body =
  ErrorBody string
  | SessionCreated string string string
  | StatusBody string

datatype response = Response nat body

subsection \<open>The action \<open>create_session\<close>\<close>

text \<open>
  One \<open>create_session\<close> request with what its handler reads from outside: the parsed
  body, the clock reading of the validation query and of the usage mutation, the
  identifier that \<open>generateSessionId\<close> draws, the outcome of \<open>createGeminiConnection\<close>
  (\<open>None\<close> when it throws) and the clock readings stored as \<open>createdAt\<close> and
  \<open>lastActivity\<close>.
\<close>

record create_call =
  c_userId :: "string option"
  c_ephemeralToken :: "string option"
  c_validateAt :: nat
  c_updateAt :: nat
  c_newSessionId :: string
  c_connection :: "connection option"
  c_createdAt :: nat
  c_lastActivity :: nat

definition MODEL :: string where
  "MODEL = ''gemini-2.5-flash-preview-native-audio-dialog''"

text \<open>
  The token check of the handler: validation, then the usage mutation with
  \<open>incrementSessions: 1\<close>. A rejected token answers 403 with the validator's reason; a
  mutation that throws is caught by the handler's outer \<open>catch\<close> (500).
\<close>

definition session_token_check :: "platform \<Rightarrow> db \<Rightarrow> create_call \<Rightarrow> response + db" where
  "session_token_check p d c =
     (case c_ephemeralToken c of
        None \<Rightarrow> Inr d
      | Some ephemeralToken \<Rightarrow>
          if ephemeralToken = [] then Inr d
          else
            (case fst (validateEphemeralToken d (c_validateAt c) ephemeralToken) of
               Rejected e \<Rightarrow>
                 Inl (Response 403 (ErrorBody (''Token validation failed: '' @ e)))
             | Accepted u su mu ms mm ex \<Rightarrow>
                 (case updateTokenUsage p d (c_updateAt c) ephemeralToken (Some (Fin 1)) None of
                    (Inl err, d') \<Rightarrow> Inl (Response 500 (ErrorBody ''Internal server error''))
                  | (Inr u, d') \<Rightarrow> Inr d')))"

definition create_session ::
  "platform \<Rightarrow> proxy_state \<Rightarrow> create_call \<Rightarrow> response \<times> proxy_state" where
  "create_session p st c =
     (if \<not> truthy (c_userId c) then (Response 400 (ErrorBody ''userId is required''), st)
      else
        (case session_token_check p (database st) c of
           Inl resp \<Rightarrow> (resp, st)
         | Inr d' \<Rightarrow>
             (case c_connection c of
                None \<Rightarrow>
                  (Response 500 (ErrorBody ''Failed to create session''), st\<lparr>database := d'\<rparr>)
              | Some geminiConn \<Rightarrow>
                  (Response 200 (SessionCreated (c_newSessionId c) ''connected'' MODEL),
                   st\<lparr>database := d',
                      activeSessions := map_set (c_newSessionId c)
                        \<lparr>sessionId = c_newSessionId c,
                         sessionUserId = (case c_userId c of Some u \<Rightarrow> u | None \<Rightarrow> []),
                         geminiConnection = geminiConn,
                         sessionIsActive = True,
                         sessionCreatedAt = c_createdAt c,
                         lastActivity = c_lastActivity c\<rparr>
                        (activeSessions st)\<rparr>))))"

text \<open>Successive \<open>create_session\<close> requests, with their responses in order.\<close>

fun create_sessions ::
  "platform \<Rightarrow> proxy_state \<Rightarrow> create_call list \<Rightarrow> response list \<times> proxy_state" where
  "create_sessions p st [] = ([], st)"
| "create_sessions p st (c # cs) =
     (let (r, st') = create_session p st c;
          (rs, st'') = create_sessions p st' cs
      in (r # rs, st''))"

text \<open>The counter \<open>sessionsUsed\<close> stored for a secret, if a row has it.\<close>

definition stored_sessionsUsed :: "proxy_state \<Rightarrow> string \<Rightarrow> number option" where
  "stored_sessionsUsed st t =
     map_option (\<lambda>(i, r). sessionsUsed r) (by_token_first t (ephemeralTokens (database st)))"

subsection \<open>The action \<open>close_session\<close>\<close>

text \<open>
  \<open>close_throws c\<close> says whether \<open>close()\<close> on connection \<open>c\<close> throws. The query
  parameter \<open>sessionId\<close> is \<open>None\<close> when the URL does not carry it. When \<open>close()\<close>
  throws, \<open>isActive = false\<close> is skipped and the error is logged; the entry is deleted
  either way.
\<close>

definition close_session ::
  "(connection \<Rightarrow> bool) \<Rightarrow> proxy_state \<Rightarrow> string option \<Rightarrow> response \<times> proxy_state" where
  "close_session close_throws st sid =
     (if \<not> truthy sid then (Response 400 (ErrorBody ''sessionId is required''), st)
      else
        let s = (case sid of Some x \<Rightarrow> x | None \<Rightarrow> [])
        in (case map_get s (activeSessions st) of
              None \<Rightarrow> (Response 200 (StatusBody ''session_closed''), st)
            | Some sessionData \<Rightarrow>
                let st1 = st\<lparr>closeCalls := closeCalls st @ [geminiConnection sessionData]\<rparr>;
                    st2 = (if close_throws (geminiConnection sessionData)
                           then st1\<lparr>closeErrors := closeErrors st1 @ [s]\<rparr>
                           else st1\<lparr>activeSessions :=
                                  map_set s (sessionData\<lparr>sessionIsActive := False\<rparr>)
                                    (activeSessions st1)\<rparr>)
                in (Response 200 (StatusBody ''session_closed''),
                    st2\<lparr>activeSessions := map_delete s (activeSessions st2)\<rparr>)))"

subsection \<open>cleanupInactiveSessions\<close>

definition TIMEOUT_MS :: int where
  "TIMEOUT_MS = 15 * 60 * 1000"

text \<open>
  The loop over the entries of the map. The body deletes only the entry it is visiting, so
  the entries visited are those present when the sweep starts. \<open>close()\<close> is called on a
  timed-out session that is still marked active; a throw is caught and logged.
\<close>

fun cleanup_loop ::
  "(connection \<Rightarrow> bool) \<Rightarrow> nat \<Rightarrow> (string \<times> GeminiSession) list \<Rightarrow> proxy_state \<Rightarrow> proxy_state" where
  "cleanup_loop close_throws now [] st = st"
| "cleanup_loop close_throws now ((sid, session) # rest) st =
     cleanup_loop close_throws now rest
       (if int now - int (lastActivity session) > TIMEOUT_MS then
          (let st1 = (if sessionIsActive session
                      then st\<lparr>closeCalls := closeCalls st @ [geminiConnection session]\<rparr>
                      else st);
               st2 = (if sessionIsActive session \<and> close_throws (geminiConnection session)
                      then st1\<lparr>closeErrors := closeErrors st1 @ [sid]\<rparr>
                      else st1)
           in st2\<lparr>activeSessions := map_delete sid (activeSessions st2)\<rparr>)
        else st)"

definition cleanupInactiveSessions ::
  "(connection \<Rightarrow> bool) \<Rightarrow> nat \<Rightarrow> proxy_state \<Rightarrow> proxy_state" where
  "cleanupInactiveSessions close_throws now st =
     cleanup_loop close_throws now (activeSessions st) st"

section \<open>The client token cache (app/lib/token-service.ts)\<close>

text \<open>
  \<open>localStorage\<close> is a map from keys to strings whose operations succeed. \<open>JSON.parse\<close>
  belongs to the platform: it is a parameter, \<open>None\<close> where it throws, and its value is
  read at the type the source casts it to (\<open>as TokenInfo\<close>). \<open>window\<close> says whether
  the code runs in a browser (\<open>typeof window !== 'undefined'\<close>).
\<close>

record TokenInfo =
  info_token :: string
  info_expiresAt :: int
  info_maxSessions :: int
  info_maxMessages :: int
  info_tokenId :: string

type_synonym localStorage = "string \<rightharpoonup> string"

definition TOKEN_KEY :: string where
  "TOKEN_KEY = ''gemini_ephemeral_token''"

definition TOKEN_INFO_KEY :: string where
  "TOKEN_INFO_KEY = ''gemini_token_info''"

definition clearToken :: "bool \<Rightarrow> localStorage \<Rightarrow> localStorage" where
  "clearToken window ls =
     (if \<not> window then ls else ls(TOKEN_KEY := None, TOKEN_INFO_KEY := None))"

text \<open>
  \<open>getTokenInfo\<close> returns the record or \<open>null\<close>, and the storage it leaves. A throw of
  \<open>JSON.parse\<close> is caught: the cache is cleared and \<open>null\<close> returned.
\<close>

definition getTokenInfo ::
  "(string \<Rightarrow> TokenInfo option) \<Rightarrow> bool \<Rightarrow> localStorage \<Rightarrow> nat
   \<Rightarrow> TokenInfo option \<times> localStorage" where
  "getTokenInfo JSON_parse window ls now =
     (if \<not> window then (None, ls)
      else
        (case ls TOKEN_INFO_KEY of
           None \<Rightarrow> (None, ls)
         | Some infoString \<Rightarrow>
             if infoString = [] then (None, ls)
             else
               (case JSON_parse infoString of
                  None \<Rightarrow> (None, clearToken window ls)
                | Some info \<Rightarrow>
                    if int now > info_expiresAt info then (None, clearToken window ls)
                    else (Some info, ls))))"

text \<open>
  \<open>isTokenValid\<close> reads the clock once inside \<open>getTokenInfo\<close> and once more for its own
  comparison.
\<close>

definition isTokenValid ::
  "(string \<Rightarrow> TokenInfo option) \<Rightarrow> bool \<Rightarrow> localStorage \<Rightarrow> nat \<Rightarrow> nat
   \<Rightarrow> bool \<times> localStorage" where
  "isTokenValid JSON_parse window ls now now' =
     (let (tokenInfo, ls') = getTokenInfo JSON_parse window ls now
      in ((case tokenInfo of None \<Rightarrow> False | Some info \<Rightarrow> int now' < info_expiresAt info),
          ls'))"

section \<open>Example states\<close>

text \<open>
  An interpretation of the platform for the examples. They compute with small whole
  numbers only, on which every binary64 platform is exact.
\<close>

definition exact :: platform where
  "exact = \<lparr>rnd = Fin, db_lt = num_lt\<rparr>"

definition tok_row :: "string \<Rightarrow> bool \<Rightarrow> number \<Rightarrow> number \<Rightarrow> number \<Rightarrow> token_record" where
  "tok_row t act ex su mu =
     \<lparr>token = t, userId = ''user_1'', expiresAt = ex, sessionsUsed = su, messagesUsed = mu,
      maxSessions = Fin 5, maxMessages = Fin 1000, isActive = act, createdAt = 0,
      lastUsed = 0, deactivatedAt = None\<rparr>"

definition db_checks :: db where
  "db_checks = \<lparr>users = [''user_1''], ephemeralTokens =
     [tok_row ''b'' False (Fin 10) (Fin 5) (Fin 1000),
      tok_row ''c'' True (Fin 10) (Fin 5) (Fin 1000),
      tok_row ''d'' True (Fin 5000) (Fin 5) (Fin 1000),
      tok_row ''e'' True (Fin 5000) (Fin 4) (Fin 1000),
      tok_row ''f'' True (Fin 5000) (Fin 4) (Fin 999)]\<rparr>"

definition db_one :: db where
  "db_one = \<lparr>users = [''user_1''], ephemeralTokens =
     [tok_row ''x'' True (Fin 10000000) (Fin 0) (Fin 0),
      tok_row ''t'' True (Fin 10000000) (Fin 0) (Fin 0)]\<rparr>"

definition db_nan :: db where
  "db_nan = \<lparr>users = [''user_1''], ephemeralTokens =
     [tok_row ''x'' True (Fin 10000000) (Fin 0) (Fin 0),
      (tok_row ''t'' True (Fin 10000000) NaN (Fin 0))\<lparr>lastUsed := 500\<rparr>]\<rparr>"

definition db_fresh :: db where
  "db_fresh = \<lparr>users = [''user_1''], ephemeralTokens = []\<rparr>"

definition secret_H :: string where
  "secret_H = ''glt_HHHHHHHHHHHHHHHHHHHHHHHHHHHHHHHH_1000''"

definition sess :: "string \<Rightarrow> connection \<Rightarrow> bool \<Rightarrow> nat \<Rightarrow> GeminiSession" where
  "sess sid c act la =
     \<lparr>sessionId = sid, sessionUserId = ''user_1'', geminiConnection = c,
      sessionIsActive = act, sessionCreatedAt = 0, lastActivity = la\<rparr>"

definition proxy_three :: proxy_state where
  "proxy_three =
     \<lparr>database = db_fresh,
      activeSessions = [(''s1'', sess ''s1'' 1 True 0), (''s2'', sess ''s2'' 2 True 100000),
                        (''s3'', sess ''s3'' 3 True 50), (''s4'', sess ''s4'' 4 False 60)],
      closeCalls = [], closeErrors = []\<rparr>"

definition proxy_fresh :: proxy_state where
  "proxy_fresh = \<lparr>database = db_fresh, activeSessions = [], closeCalls = [], closeErrors = []\<rparr>"

definition db_issued :: db where
  "db_issued = \<lparr>users = [''user_1''], ephemeralTokens =
     [\<lparr>token = secret_H, userId = ''user_1'', expiresAt = Fin 3601000,
       sessionsUsed = Fin 0, messagesUsed = Fin 0, maxSessions = Fin 3,
       maxMessages = Fin 1000, isActive = True, createdAt = 1000, lastUsed = 1000,
       deactivatedAt = None\<rparr>]\<rparr>"

definition call :: "nat \<Rightarrow> string \<Rightarrow> create_call" where
  "call n sid =
     \<lparr>c_userId = Some ''user_1'', c_ephemeralToken = Some secret_H,
      c_validateAt = 2000 + n, c_updateAt = 2000 + n, c_newSessionId = sid,
      c_connection = Some n, c_createdAt = 2000 + n, c_lastActivity = 2000 + n\<rparr>"

definition info_old :: TokenInfo where
  "info_old = \<lparr>info_token = secret_H, info_expiresAt = 5000, info_maxSessions = 5,
      info_maxMessages = 1000, info_tokenId = ''id_1''\<rparr>"

definition parse_example :: "string \<Rightarrow> TokenInfo option" where
  "parse_example s = (if s = ''stored info_old'' then Some info_old else None)"

definition cache_corrupt :: localStorage where
  "cache_corrupt = [TOKEN_KEY \<mapsto> secret_H, TOKEN_INFO_KEY \<mapsto> ''{ token: glt_HH'']"

definition cache_old :: localStorage where
  "cache_old = [TOKEN_KEY \<mapsto> secret_H, TOKEN_INFO_KEY \<mapsto> ''stored info_old'']"

section \<open>Exact arithmetic on whole numbers\<close>

lemma representable_small:
  assumes "\<bar>k\<bar> < 2 ^ 53"
  shows "representable (of_int k)"
proof -
  have "(of_int k :: real) = of_int k * 2 powr of_int 0" by simp
  with assms show ?thesis
    unfolding representable_def by (intro exI [of _ k] exI [of _ 0]) simp
qed

lemma representable_double:
  assumes "\<bar>m\<bar> < 2 ^ 53"
  shows "representable (of_int (2 * m))"
proof -
  have "(of_int (2 * m) :: real) = of_int m * 2 powr of_int 1" by simp
  with assms show ?thesis
    unfolding representable_def by (intro exI [of _ m] exI [of _ 1]) simp
qed

lemma representable_int:
  assumes "\<bar>k\<bar> \<le> 2 ^ 53"
  shows "representable (of_int k)"
proof (cases "\<bar>k\<bar> < 2 ^ 53")
  case True
  then show ?thesis by (rule representable_small)
next
  case False
  with assms have eq: "\<bar>k\<bar> = 2 ^ 53" by linarith
  define m where "m = k div 2"
  have p: "(2::int) ^ 53 = 2 * 2 ^ 52" by (simp only: power_Suc [symmetric]) simp
  have "k = 2 * 2 ^ 52 \<or> k = - (2 * 2 ^ 52)" using eq unfolding p by linarith
  then have k: "k = 2 * m" and m: "\<bar>m\<bar> = 2 ^ 52"
    unfolding m_def by auto
  have "(2::int) ^ 52 < 2 ^ 53" by (rule power_strict_increasing) simp_all
  with m have "\<bar>m\<bar> < 2 ^ 53" by simp
  then show ?thesis unfolding k by (rule representable_double)
qed

lemma round64_int: "\<bar>k\<bar> \<le> 2 ^ 53 \<Longrightarrow> round64 p (of_int k) = Fin (of_int k)"
  by (simp add: round64_def representable_int)

lemma round64_numeral:
  "(numeral n :: int) \<le> 2 ^ 53 \<Longrightarrow> round64 p (numeral n) = Fin (numeral n)"
  using round64_int [of "numeral n" p] by simp

lemma round64_0: "round64 p 0 = Fin 0"
  using round64_int [of 0 p] by simp

lemma round64_1: "round64 p 1 = Fin 1"
  using round64_int [of 1 p] by simp

lemma num_le_Fin: "num_le (Fin a) (Fin b) = (a \<le> b)"
  by (auto simp: num_le_def)

lemma num_ge_Fin: "num_ge (Fin a) (Fin b) = (b \<le> a)"
  by (simp add: num_ge_def num_le_Fin)

lemma num_gt_Fin: "num_gt (Fin a) (Fin b) = (b < a)"
  by (simp add: num_gt_def)

lemma round64_neg_numeral:
  "(numeral n :: int) \<le> 2 ^ 53 \<Longrightarrow> round64 p (- numeral n) = Fin (- numeral n)"
  using round64_int [of "- numeral n" p] by simp

lemma num_le_trans: "num_le x y \<Longrightarrow> num_le y z \<Longrightarrow> num_le x z"
  by (cases x; cases y; cases z) (auto simp: num_le_def)

lemma num_ge_iff_not_lt: "x \<noteq> NaN \<Longrightarrow> y \<noteq> NaN \<Longrightarrow> num_ge x y = (\<not> num_lt x y)"
  by (simp add: num_ge_def num_le_def)

lemma num_gt_iff_not_le: "x \<noteq> NaN \<Longrightarrow> y \<noteq> NaN \<Longrightarrow> num_gt x y = (\<not> num_le x y)"
  by (simp add: num_gt_def num_le_def)

text \<open>
  Above \<open>2^53\<close> not every whole number is a binary64 value: \<open>2^53 + 1\<close> is none,
  so \<open>2^53 + 1\<close> computed in binary64 is what the rounding makes of it.
\<close>

lemma not_representable_odd:
  "\<not> representable (2 ^ 53 + 1)"
proof
  assume "representable (2 ^ 53 + 1)"
  then obtain m e :: int where m: "\<bar>m\<bar> < 2 ^ 53"
    and eq: "(2 ^ 53 + 1 :: real) = of_int m * 2 powr of_int e"
    unfolding representable_def by blast
  show False
  proof (cases "e \<le> 0")
    case True
    then have "(2::real) powr of_int e \<le> 2 powr 0"
      by (intro powr_mono) simp_all
    then have p: "(2::real) powr of_int e \<le> 1" by simp
    have "of_int m * 2 powr of_int e \<le> \<bar>of_int m :: real\<bar> * 2 powr of_int e"
      by (intro mult_right_mono) simp_all
    also have "\<dots> \<le> \<bar>of_int m :: real\<bar> * 1"
      using p by (intro mult_left_mono) simp_all
    also have "\<dots> = of_int \<bar>m\<bar>" by simp
    also have "\<dots> < of_int (2 ^ 53)" using m by (simp only: of_int_less_iff)
    finally have "(2 ^ 53 + 1 :: real) < 2 ^ 53" using eq by simp
    then show False by simp
  next
    case False
    then obtain n :: nat where e: "e = int (Suc n)"
      by (metis not_le zero_less_imp_eq_int gr0_conv_Suc)
    have "(2::real) powr real (Suc n) = 2 ^ Suc n"
      by (rule powr_realpow) simp
    then have "(2::real) powr of_int e = 2 ^ Suc n"
      unfolding e by (simp only: of_int_of_nat_eq)
    with eq have "(2 ^ 53 + 1 :: real) = of_int (m * 2 ^ Suc n)" by simp
    moreover have "(2 ^ 53 + 1 :: real) = of_int (2 ^ 53 + 1)" by simp
    ultimately have "real_of_int (2 ^ 53 + 1) = of_int (m * 2 ^ Suc n)" by simp
    then have "(2 ^ 53 + 1 :: int) = m * 2 ^ Suc n" by (simp only: of_int_eq_iff)
    moreover have "even (m * 2 ^ Suc n)" by simp
    ultimately have "even (2 ^ 53 + 1 :: int)" by (simp only:)
    then show False by simp
  qed
qed

lemma fadd_beyond_exact: "fadd p (Fin (2 ^ 53)) (Fin 1) = rnd p (2 ^ 53 + 1)"
proof -
  have "fadd p (Fin (2 ^ 53)) (Fin 1) = round64 p (2 ^ 53 + 1)"
    by (simp only: fadd.simps)
  then show ?thesis
    by (simp only: round64_def not_representable_odd if_False)
qed

section \<open>Lookup and patch\<close>

lemma by_token_first_Some:
  "by_token_first t rs = Some (i, r) \<Longrightarrow> i < length rs \<and> rs ! i = r \<and> token r = t"
proof (induction rs arbitrary: i)
  case Nil
  then show ?case by simp
next
  case (Cons a rs)
  then show ?case by (auto split: if_splits)
qed

lemma by_token_first_update:
  "by_token_first t rs = Some (i, r) \<Longrightarrow> token r' = t \<Longrightarrow>
   by_token_first t (rs[i := r']) = Some (i, r')"
proof (induction rs arbitrary: i)
  case Nil
  then show ?case by simp
next
  case (Cons a rs)
  then show ?case by (auto split: if_splits)
qed

lemma patch_found:
  "by_token_first t (ephemeralTokens d) = Some (i, r) \<Longrightarrow>
   patch i f d = d\<lparr>ephemeralTokens := (ephemeralTokens d)[i := f r]\<rparr>"
  by (simp add: patch_def by_token_first_Some)

section \<open>Validation order\<close>

lemma nan_increment_on_every_platform:
  "snd (updateTokenUsage p db_one 500 ''t'' (Some NaN) None) = db_nan"
  by (simp add: updateTokenUsage_def db_one_def db_nan_def tok_row_def patch_def
      arg_default_def round64_0 Let_def)

text \<open>
  Claim C2 as stated fails. Checks 4 and 5 of the code reject when
  \<open>sessionsUsed >= maxSessions\<close> and when \<open>messagesUsed >= maxMessages\<close>, and a
  comparison with \<open>NaN\<close> is false: a counter that is \<open>NaN\<close> (stored by one
  \<open>updateTokenUsage\<close> with \<open>incrementSessions = NaN\<close>) is not below its bound, and the
  token is accepted.
\<close>

theorem validate_nan_counterexample:
  "snd (updateTokenUsage exact db_one 500 ''t'' (Some NaN) None) = db_nan \<and>
   \<not> num_lt NaN (Fin 5) \<and>
   validateEphemeralToken db_nan 1000 ''t'' =
     (Accepted ''user_1'' NaN (Fin 0) (Fin 5) (Fin 1000) (Fin 10000000), db_nan)"
  by (simp add: updateTokenUsage_def validateEphemeralToken_def db_one_def db_nan_def
      tok_row_def patch_def arg_default_def round64_0 of_clock_def num_gt_Fin num_ge_Fin Let_def
      num_ge_def num_le_def)

text \<open>
  Claim C2, amended. The validator checks, in this order, that the record exists (else
  "Token not found"), that it is active (else "Token is deactivated"), that the clock is
  not greater than \<open>expiresAt\<close> (else "Token expired"), that \<open>sessionsUsed >= maxSessions\<close>
  is false (else "Session limit exceeded") and that \<open>messagesUsed >= maxMessages\<close> is
  false (else "Message limit exceeded"), the comparisons being those of binary64 numbers.
  The first check that fails decides the reason, whatever the later checks would say;
  when all pass the stored fields are returned; the database is never changed. On a row
  whose \<open>expiresAt\<close>, counters and bounds are not \<open>NaN\<close>, checks 3 to 5 are
  \<open>now <= expiresAt\<close>, \<open>sessionsUsed < maxSessions\<close> and \<open>messagesUsed < maxMessages\<close>.
\<close>

theorem validate_check_order:
  "snd (validateEphemeralToken d now t) = d \<and>
   (by_token_first t (ephemeralTokens d) = None \<longrightarrow>
      fst (validateEphemeralToken d now t) = Rejected ''Token not found'') \<and>
   (\<forall>i r. by_token_first t (ephemeralTokens d) = Some (i, r) \<longrightarrow>
      (\<not> isActive r \<longrightarrow>
         fst (validateEphemeralToken d now t) = Rejected ''Token is deactivated'') \<and>
      (isActive r \<and> num_gt (of_clock now) (expiresAt r) \<longrightarrow>
         fst (validateEphemeralToken d now t) = Rejected ''Token expired'') \<and>
      (isActive r \<and> \<not> num_gt (of_clock now) (expiresAt r) \<and>
       num_ge (sessionsUsed r) (maxSessions r) \<longrightarrow>
         fst (validateEphemeralToken d now t) = Rejected ''Session limit exceeded'') \<and>
      (isActive r \<and> \<not> num_gt (of_clock now) (expiresAt r) \<and>
       \<not> num_ge (sessionsUsed r) (maxSessions r) \<and>
       num_ge (messagesUsed r) (maxMessages r) \<longrightarrow>
         fst (validateEphemeralToken d now t) = Rejected ''Message limit exceeded'') \<and>
      (isActive r \<and> \<not> num_gt (of_clock now) (expiresAt r) \<and>
       \<not> num_ge (sessionsUsed r) (maxSessions r) \<and>
       \<not> num_ge (messagesUsed r) (maxMessages r) \<longrightarrow>
         fst (validateEphemeralToken d now t) =
           Accepted (userId r) (sessionsUsed r) (messagesUsed r) (maxSessions r)
             (maxMessages r) (expiresAt r)) \<and>
      (expiresAt r \<noteq> NaN \<and> sessionsUsed r \<noteq> NaN \<and> maxSessions r \<noteq> NaN \<and>
       messagesUsed r \<noteq> NaN \<and> maxMessages r \<noteq> NaN \<longrightarrow>
         (isActive r \<and> \<not> num_le (of_clock now) (expiresAt r) \<longrightarrow>
            fst (validateEphemeralToken d now t) = Rejected ''Token expired'') \<and>
         (isActive r \<and> num_le (of_clock now) (expiresAt r) \<and>
          \<not> num_lt (sessionsUsed r) (maxSessions r) \<longrightarrow>
            fst (validateEphemeralToken d now t) = Rejected ''Session limit exceeded'') \<and>
         (isActive r \<and> num_le (of_clock now) (expiresAt r) \<and>
          num_lt (sessionsUsed r) (maxSessions r) \<and>
          \<not> num_lt (messagesUsed r) (maxMessages r) \<longrightarrow>
            fst (validateEphemeralToken d now t) = Rejected ''Message limit exceeded'') \<and>
         (isActive r \<and> num_le (of_clock now) (expiresAt r) \<and>
          num_lt (sessionsUsed r) (maxSessions r) \<and>
          num_lt (messagesUsed r) (maxMessages r) \<longrightarrow>
            fst (validateEphemeralToken d now t) =
              Accepted (userId r) (sessionsUsed r) (messagesUsed r) (maxSessions r)
                (maxMessages r) (expiresAt r))))"
proof -
  have clock: "of_clock now \<noteq> NaN" by (simp add: of_clock_def)
  show ?thesis
    by (simp add: validateEphemeralToken_def num_ge_iff_not_lt num_gt_iff_not_le clock
        split: option.splits)
qed

text \<open>
  The theorem at a database where each row fails at a different check and at every later
  one (clock 1000): the reason is that of the first failing check.
\<close>

theorem validate_check_order_witness:
  "validateEphemeralToken db_checks 1000 ''a'' = (Rejected ''Token not found'', db_checks) \<and>
   validateEphemeralToken db_checks 1000 ''b'' = (Rejected ''Token is deactivated'', db_checks) \<and>
   validateEphemeralToken db_checks 1000 ''c'' = (Rejected ''Token expired'', db_checks) \<and>
   validateEphemeralToken db_checks 1000 ''d'' = (Rejected ''Session limit exceeded'', db_checks) \<and>
   validateEphemeralToken db_checks 1000 ''e'' = (Rejected ''Message limit exceeded'', db_checks) \<and>
   validateEphemeralToken db_checks 1000 ''f'' =
     (Accepted ''user_1'' (Fin 4) (Fin 999) (Fin 5) (Fin 1000) (Fin 5000), db_checks)"
proof -
  have look:
    "by_token_first ''a'' (ephemeralTokens db_checks) = None"
    "by_token_first ''b'' (ephemeralTokens db_checks) =
       Some (0, tok_row ''b'' False (Fin 10) (Fin 5) (Fin 1000))"
    "by_token_first ''c'' (ephemeralTokens db_checks) =
       Some (1, tok_row ''c'' True (Fin 10) (Fin 5) (Fin 1000))"
    "by_token_first ''d'' (ephemeralTokens db_checks) =
       Some (2, tok_row ''d'' True (Fin 5000) (Fin 5) (Fin 1000))"
    "by_token_first ''e'' (ephemeralTokens db_checks) =
       Some (3, tok_row ''e'' True (Fin 5000) (Fin 4) (Fin 1000))"
    "by_token_first ''f'' (ephemeralTokens db_checks) =
       Some (4, tok_row ''f'' True (Fin 5000) (Fin 4) (Fin 999))"
    by (simp_all add: db_checks_def tok_row_def)
  note ev = prod_eq_iff tok_row_def of_clock_def num_gt_Fin num_ge_Fin num_le_Fin
  have a: "validateEphemeralToken db_checks 1000 ''a'' = (Rejected ''Token not found'', db_checks)"
    using validate_check_order [of db_checks 1000 "''a''"] look(1)
    by (simp add: ev)
  have b: "validateEphemeralToken db_checks 1000 ''b'' = (Rejected ''Token is deactivated'', db_checks)"
    using validate_check_order [of db_checks 1000 "''b''"] look(2)
    by (simp add: ev)
  have c: "validateEphemeralToken db_checks 1000 ''c'' = (Rejected ''Token expired'', db_checks)"
    using validate_check_order [of db_checks 1000 "''c''"] look(3)
    by (simp add: ev)
  have d: "validateEphemeralToken db_checks 1000 ''d'' = (Rejected ''Session limit exceeded'', db_checks)"
    using validate_check_order [of db_checks 1000 "''d''"] look(4)
    by (simp add: ev)
  have e: "validateEphemeralToken db_checks 1000 ''e'' = (Rejected ''Message limit exceeded'', db_checks)"
    using validate_check_order [of db_checks 1000 "''e''"] look(5)
    by (simp add: ev)
  have f: "validateEphemeralToken db_checks 1000 ''f'' =
      (Accepted ''user_1'' (Fin 4) (Fin 999) (Fin 5) (Fin 1000) (Fin 5000), db_checks)"
    using validate_check_order [of db_checks 1000 "''f''"] look(6)
    by (simp add: ev)
  from a b c d e f show ?thesis by blast
qed

section \<open>The usage ledger\<close>

text \<open>
  Claim C6. \<open>updateTokenUsage\<close> throws "Token not found" when no row has the secret, and
  the database is then unchanged. When the row exists, the increments (0 when omitted) are
  added to \<open>sessionsUsed\<close> and \<open>messagesUsed\<close> with no comparison against the bounds,
  the sums being those of binary64 numbers, whatever the platform's rounding (at a
  counter of \<open>2^53\<close> an increment of 1 stores the rounding of \<open>2^53 + 1\<close>, see
  \<open>fadd_beyond_exact\<close>);
  \<open>lastUsed\<close> becomes the clock reading, nothing else in the database changes, and the
  call returns the new counters with the row's \<open>maxSessions\<close> and \<open>maxMessages\<close>.
\<close>

theorem update_usage_unconditional:
  "(by_token_first t (ephemeralTokens d) = None \<longrightarrow>
      updateTokenUsage p d now t incS incM = (Inl (Error ''Token not found''), d)) \<and>
   (\<forall>i r. by_token_first t (ephemeralTokens d) = Some (i, r) \<longrightarrow>
      fst (updateTokenUsage p d now t incS incM) =
        Inr (Usage (fadd p (sessionsUsed r) (arg_default incS (Fin 0)))
               (fadd p (messagesUsed r) (arg_default incM (Fin 0)))
               (maxSessions r) (maxMessages r)) \<and>
      snd (updateTokenUsage p d now t incS incM) =
        d\<lparr>ephemeralTokens := (ephemeralTokens d)
           [i := r\<lparr>sessionsUsed := fadd p (sessionsUsed r) (arg_default incS (Fin 0)),
                   messagesUsed := fadd p (messagesUsed r) (arg_default incM (Fin 0)),
                   lastUsed := now\<rparr>]\<rparr>)"
  by (simp add: updateTokenUsage_def patch_found Let_def split: option.splits)

theorem update_usage_unconditional_witness:
  "updateTokenUsage exact db_one 500 ''zz'' (Some (Fin 1)) None =
     (Inl (Error ''Token not found''), db_one) \<and>
   updateTokenUsage exact db_one 500 ''t'' (Some (Fin 7)) None =
     (Inr (Usage (Fin 7) (Fin 0) (Fin 5) (Fin 1000)),
      \<lparr>users = [''user_1''], ephemeralTokens =
         [tok_row ''x'' True (Fin 10000000) (Fin 0) (Fin 0),
          (tok_row ''t'' True (Fin 10000000) (Fin 7) (Fin 0))\<lparr>lastUsed := 500\<rparr>]\<rparr>)"
proof -
  have l1: "by_token_first ''zz'' (ephemeralTokens db_one) = None"
    and l2: "by_token_first ''t'' (ephemeralTokens db_one) =
      Some (1, tok_row ''t'' True (Fin 10000000) (Fin 0) (Fin 0))"
    by (simp_all add: db_one_def tok_row_def)
  have a: "updateTokenUsage exact db_one 500 ''zz'' (Some (Fin 1)) None =
      (Inl (Error ''Token not found''), db_one)"
    using update_usage_unconditional [of "''zz''" db_one exact 500 "Some (Fin 1)" None] l1
    by simp
  have b: "updateTokenUsage exact db_one 500 ''t'' (Some (Fin 7)) None =
     (Inr (Usage (Fin 7) (Fin 0) (Fin 5) (Fin 1000)),
      \<lparr>users = [''user_1''], ephemeralTokens =
         [tok_row ''x'' True (Fin 10000000) (Fin 0) (Fin 0),
          (tok_row ''t'' True (Fin 10000000) (Fin 7) (Fin 0))\<lparr>lastUsed := 500\<rparr>]\<rparr>)"
    using update_usage_unconditional [of "''t''" db_one exact 500 "Some (Fin 7)" None] l2
    by (simp add: prod_eq_iff arg_default_def round64_numeral round64_0)
      (simp add: db_one_def tok_row_def round64_numeral round64_0)
  from a b show ?thesis by blast
qed

section \<open>Refresh\<close>

lemma round64_not_NaN: "monotone_rounding p \<Longrightarrow> round64 p x \<noteq> NaN"
proof -
  assume "monotone_rounding p"
  then have "num_le (round64 p x) (round64 p x)"
    unfolding monotone_rounding_def by blast
  then show ?thesis by (simp add: num_le_def)
qed

lemma round64_nonneg: "monotone_rounding p \<Longrightarrow> 0 \<le> x \<Longrightarrow> num_le (Fin 0) (round64 p x)"
proof -
  assume m: "monotone_rounding p" and x: "0 \<le> x"
  then have "num_le (round64 p 0) (round64 p x)"
    unfolding monotone_rounding_def by blast
  then show ?thesis by (simp add: round64_0)
qed

lemma nonneg_cases:
  assumes "num_le (Fin 0) x"
  obtains a where "x = Fin a" "0 \<le> a" | "x = PosInf"
  using assms by (cases x) (auto simp: num_le_def)

lemma fmul_nonneg:
  assumes "monotone_rounding p" "num_le (Fin 0) x" "0 < c"
  shows "num_le (Fin 0) (fmul p x (Fin c))"
  using assms(2)
proof (cases rule: nonneg_cases)
  case (1 a)
  then have "0 \<le> a * c" using assms(3) by simp
  then show ?thesis using 1 assms(1) by (simp add: round64_nonneg)
next
  case 2
  then show ?thesis using assms(3) by (simp add: num_le_def)
qed

lemma fadd_grows:
  assumes "monotone_rounding p" "representable e" "num_le (Fin 0) dl"
  shows "num_le (Fin e) (fadd p (Fin e) dl)"
  using assms(3)
proof (cases rule: nonneg_cases)
  case (1 a)
  then have "e \<le> e + a" by simp
  with assms(1) have "num_le (round64 p e) (round64 p (e + a))"
    unfolding monotone_rounding_def by blast
  then show ?thesis using 1 assms(2) by (simp add: round64_def)
next
  case 2
  then show ?thesis by (simp add: num_le_def)
qed

lemma fadd_not_NaN:
  assumes "monotone_rounding p" "num_le (Fin 0) dl"
  shows "fadd p (Fin a) dl \<noteq> NaN"
  using assms(2)
proof (cases rule: nonneg_cases)
  case (1 b)
  then show ?thesis using assms(1) by (simp add: round64_not_NaN)
next
  case 2
  then show ?thesis by simp
qed

lemma fmax_ge: "a \<noteq> NaN \<Longrightarrow> num_le x b \<Longrightarrow> num_le x (fmax a b)"
proof -
  assume a: "a \<noteq> NaN" and xb: "num_le x b"
  then have b: "b \<noteq> NaN" by (simp add: num_le_def)
  show ?thesis
  proof (cases "num_lt a b")
    case True
    then show ?thesis using a b xb by (simp add: fmax_def)
  next
    case False
    then have "num_le b a" using a b by (simp add: num_le_def)
    with xb have "num_le x a" by (rule num_le_trans)
    then show ?thesis using False a b by (simp add: fmax_def)
  qed
qed

lemma negative_refresh_on_every_platform:
  "fst (refreshEphemeralToken p db_one 1000 ''t'' (Some (Fin (- 30)))) =
     Inr (Refreshed ''t'' (Fin 8200000) (Fin 0) (Fin 0))"
  by (simp add: refreshEphemeralToken_def db_one_def tok_row_def arg_default_def
      of_clock_def round64_numeral round64_neg_numeral fmax_def Let_def)

lemma nan_refresh_on_every_platform:
  "fst (refreshEphemeralToken p db_one 1000 ''t'' (Some NaN)) =
     Inr (Refreshed ''t'' NaN (Fin 0) (Fin 0))"
  by (simp add: refreshEphemeralToken_def db_one_def tok_row_def arg_default_def
      of_clock_def fmax_def Let_def)

text \<open>
  Claim C3 as stated fails: \<open>additionalMinutes\<close> is any number, and a negative one moves
  \<open>expiresAt\<close> of an unexpired token backwards. Refreshing by \<open>-30\<close> minutes at clock
  1000 a token that expires at 10000000 leaves it expiring at 8200000.
\<close>

theorem refresh_counterexample:
  "by_token_first ''t'' (ephemeralTokens db_one) =
     Some (1, tok_row ''t'' True (Fin 10000000) (Fin 0) (Fin 0)) \<and>
   fst (refreshEphemeralToken exact db_one 1000 ''t'' (Some (Fin (- 30)))) =
     Inr (Refreshed ''t'' (Fin 8200000) (Fin 0) (Fin 0)) \<and>
   expiresAt (ephemeralTokens
      (snd (refreshEphemeralToken exact db_one 1000 ''t'' (Some (Fin (- 30))))) ! 1) =
     Fin 8200000 \<and>
   \<not> num_ge (Fin 8200000) (Fin 10000000)"
  by (simp add: refreshEphemeralToken_def db_one_def tok_row_def patch_def arg_default_def
      of_clock_def round64_numeral round64_neg_numeral fmax_def num_ge_Fin Let_def)

text \<open>
  Claim C3, amended. For an existing active token, \<open>refresh\<close> stores as \<open>expiresAt\<close>, and
  returns, \<open>Math.max\<close> of the clock reading plus \<open>additionalMinutes\<close> and the current
  \<open>expiresAt\<close> plus \<open>additionalMinutes\<close> (60 when omitted, converted to milliseconds), in
  binary64 arithmetic. When the current \<open>expiresAt\<close> is a finite number and
  \<open>additionalMinutes\<close> is a finite number that is not negative, the new \<open>expiresAt\<close> is
  greater than or equal to the old one (the platform's rounding being monotone). With
  \<open>NaN\<close> or a negative number of minutes it need not be.
\<close>

theorem refresh_extends:
  "by_token_first t (ephemeralTokens d) = Some (i, r) \<Longrightarrow> isActive r \<Longrightarrow>
   (let additionalMinutes = arg_default addMin TOKEN_EXPIRATION_MINUTES;
        delta = fmul p (fmul p additionalMinutes (Fin 60)) (Fin 1000);
        newExpiresAt = fmax (fadd p (of_clock now) delta) (fadd p (expiresAt r) delta);
        d' = snd (refreshEphemeralToken p d now t addMin)
    in fst (refreshEphemeralToken p d now t addMin) =
         Inr (Refreshed t newExpiresAt (sessionsUsed r) (messagesUsed r)) \<and>
       by_token_first t (ephemeralTokens d') =
         Some (i, r\<lparr>expiresAt := newExpiresAt, lastUsed := now\<rparr>) \<and>
       (monotone_rounding p \<and>
        (\<exists>e. expiresAt r = Fin e \<and> representable e) \<and>
        (\<exists>m. additionalMinutes = Fin m \<and> 0 \<le> m) \<longrightarrow>
          num_le (expiresAt r) newExpiresAt))"
proof -
  assume found: "by_token_first t (ephemeralTokens d) = Some (i, r)" and act: "isActive r"
  define delta where
    "delta = fmul p (fmul p (arg_default addMin TOKEN_EXPIRATION_MINUTES) (Fin 60)) (Fin 1000)"
  define newExpiresAt where
    "newExpiresAt = fmax (fadd p (of_clock now) delta) (fadd p (expiresAt r) delta)"
  have tok: "token r = t" using found by_token_first_Some by blast
  have res: "refreshEphemeralToken p d now t addMin =
      (Inr (Refreshed t newExpiresAt (sessionsUsed r) (messagesUsed r)),
       d\<lparr>ephemeralTokens := (ephemeralTokens d)
          [i := r\<lparr>expiresAt := newExpiresAt, lastUsed := now\<rparr>]\<rparr>)"
    using found act
    by (simp add: refreshEphemeralToken_def patch_found Let_def newExpiresAt_def delta_def)
  have look: "by_token_first t (ephemeralTokens (snd (refreshEphemeralToken p d now t addMin))) =
      Some (i, r\<lparr>expiresAt := newExpiresAt, lastUsed := now\<rparr>)"
    using found tok by (simp add: res by_token_first_update)
  have mono: "num_le (expiresAt r) newExpiresAt"
    if m: "monotone_rounding p" and e: "expiresAt r = Fin e" "representable e"
      and a: "arg_default addMin TOKEN_EXPIRATION_MINUTES = Fin x" "0 \<le> x" for e x
  proof -
    have x0: "num_le (Fin 0) (Fin x)"
      using a(2) by (simp add: num_le_Fin)
    have "num_le (Fin 0) (fmul p (Fin x) (Fin 60))"
      by (rule fmul_nonneg [OF m x0]) simp
    then have dl: "num_le (Fin 0) delta"
      unfolding delta_def a(1) by (rule fmul_nonneg [OF m]) simp
    have "fadd p (of_clock now) delta \<noteq> NaN"
      unfolding of_clock_def using m dl by (rule fadd_not_NaN)
    moreover have "num_le (Fin e) (fadd p (Fin e) delta)"
      using m e(2) dl by (rule fadd_grows)
    ultimately show ?thesis
      unfolding newExpiresAt_def e(1) by (rule fmax_ge)
  qed
  show ?thesis
    using res look mono
    by (auto simp: Let_def newExpiresAt_def delta_def)
qed

theorem refresh_extends_witness:
  "monotone_rounding exact \<and>
   representable 10000000 \<and>
   refreshEphemeralToken exact db_one 1000 ''t'' None =
     (Inr (Refreshed ''t'' (Fin 13600000) (Fin 0) (Fin 0)),
      \<lparr>users = [''user_1''], ephemeralTokens =
         [tok_row ''x'' True (Fin 10000000) (Fin 0) (Fin 0),
          (tok_row ''t'' True (Fin 13600000) (Fin 0) (Fin 0))\<lparr>lastUsed := 1000\<rparr>]\<rparr>) \<and>
   num_le (Fin 10000000) (Fin 13600000)"
proof -
  have l: "by_token_first ''t'' (ephemeralTokens db_one) =
      Some (1, tok_row ''t'' True (Fin 10000000) (Fin 0) (Fin 0))"
    by (simp add: db_one_def tok_row_def)
  have a: "isActive (tok_row ''t'' True (Fin 10000000) (Fin 0) (Fin 0))"
    by (simp add: tok_row_def)
  have m: "monotone_rounding exact"
    by (simp add: monotone_rounding_def round64_def exact_def num_le_Fin)
  have r: "representable 10000000"
    using representable_int [of 10000000] by simp
  have s: "snd (refreshEphemeralToken exact db_one 1000 ''t'' None) =
      \<lparr>users = [''user_1''], ephemeralTokens =
         [tok_row ''x'' True (Fin 10000000) (Fin 0) (Fin 0),
          (tok_row ''t'' True (Fin 13600000) (Fin 0) (Fin 0))\<lparr>lastUsed := 1000\<rparr>]\<rparr>"
    by (simp add: refreshEphemeralToken_def db_one_def tok_row_def patch_def arg_default_def
        TOKEN_EXPIRATION_MINUTES_def of_clock_def round64_numeral fmax_def Let_def)
  have v: "fmax (fadd exact (of_clock 1000) (fmul exact (fmul exact (Fin 60) (Fin 60)) (Fin 1000)))
       (fadd exact (Fin 10000000) (fmul exact (fmul exact (Fin 60) (Fin 60)) (Fin 1000))) =
      Fin 13600000"
    by (simp add: of_clock_def round64_numeral fmax_def)
  show ?thesis
    using m r refresh_extends [OF l a, of None exact 1000] s
    by (simp add: prod_eq_iff Let_def arg_default_def TOKEN_EXPIRATION_MINUTES_def tok_row_def v)
qed

section \<open>Deactivation\<close>

text \<open>
  Claim C5 as stated fails: the second call writes \<open>deactivatedAt\<close> again, so after two
  calls at different clock readings the stored row differs from the row after the first
  call alone.
\<close>

theorem deactivate_counterexample:
  "deactivatedAt (ephemeralTokens (snd (deactivateEphemeralToken db_one 1000 ''t'')) ! 1) =
     Some 1000 \<and>
   deactivatedAt (ephemeralTokens (snd (deactivateEphemeralToken
       (snd (deactivateEphemeralToken db_one 1000 ''t'')) 2000 ''t'')) ! 1) = Some 2000 \<and>
   snd (deactivateEphemeralToken (snd (deactivateEphemeralToken db_one 1000 ''t'')) 2000 ''t'')
     \<noteq> snd (deactivateEphemeralToken db_one 1000 ''t'')"
  by (simp add: deactivateEphemeralToken_def db_one_def tok_row_def patch_def)

text \<open>
  Claim C5, amended. For an existing token, the first \<open>deactivate\<close> sets \<open>isActive\<close> to
  false and \<open>deactivatedAt\<close> to its clock reading and changes nothing else. A second
  \<open>deactivate\<close> succeeds (it does not throw) and leaves the token inactive, with
  \<open>deactivatedAt\<close> rewritten to the second call's clock reading and every other field
  and row as before: the database after the two calls is the one a single call at the
  second call's clock reading produces.
\<close>

theorem deactivate_twice:
  "by_token_first t (ephemeralTokens d) = Some (i, r) \<Longrightarrow>
   deactivateEphemeralToken d now1 t =
     (Inr (Deactivated True t),
      d\<lparr>ephemeralTokens := (ephemeralTokens d)
         [i := r\<lparr>isActive := False, deactivatedAt := Some now1\<rparr>]\<rparr>) \<and>
   deactivateEphemeralToken (snd (deactivateEphemeralToken d now1 t)) now2 t =
     (Inr (Deactivated True t),
      d\<lparr>ephemeralTokens := (ephemeralTokens d)
         [i := r\<lparr>isActive := False, deactivatedAt := Some now2\<rparr>]\<rparr>) \<and>
   by_token_first t
       (ephemeralTokens (snd (deactivateEphemeralToken
          (snd (deactivateEphemeralToken d now1 t)) now2 t))) =
     Some (i, r\<lparr>isActive := False, deactivatedAt := Some now2\<rparr>) \<and>
   snd (deactivateEphemeralToken (snd (deactivateEphemeralToken d now1 t)) now2 t) =
     snd (deactivateEphemeralToken d now2 t)"
proof -
  assume found: "by_token_first t (ephemeralTokens d) = Some (i, r)"
  let ?r1 = "r\<lparr>isActive := False, deactivatedAt := Some now1\<rparr>"
  let ?r2 = "r\<lparr>isActive := False, deactivatedAt := Some now2\<rparr>"
  let ?d1 = "d\<lparr>ephemeralTokens := (ephemeralTokens d)[i := ?r1]\<rparr>"
  let ?d2 = "d\<lparr>ephemeralTokens := (ephemeralTokens d)[i := ?r2]\<rparr>"
  from found have tok: "token r = t" and len: "i < length (ephemeralTokens d)"
    using by_token_first_Some by blast+
  have first: "deactivateEphemeralToken d now1 t = (Inr (Deactivated True t), ?d1)"
    using found by (simp add: deactivateEphemeralToken_def patch_found)
  have found1: "by_token_first t (ephemeralTokens ?d1) = Some (i, ?r1)"
    using found tok by (simp add: by_token_first_update)
  have second: "deactivateEphemeralToken ?d1 now2 t = (Inr (Deactivated True t), ?d2)"
    using found1 len by (simp add: deactivateEphemeralToken_def patch_def)
  have found2: "by_token_first t (ephemeralTokens ?d2) = Some (i, ?r2)"
    using found tok by (simp add: by_token_first_update)
  have once: "snd (deactivateEphemeralToken d now2 t) = ?d2"
    using found by (simp add: deactivateEphemeralToken_def patch_found)
  show ?thesis
    unfolding first snd_conv second once using found2 by simp
qed

theorem deactivate_twice_witness:
  "deactivateEphemeralToken (snd (deactivateEphemeralToken db_one 1000 ''t'')) 2000 ''t'' =
     (Inr (Deactivated True ''t''),
      \<lparr>users = [''user_1''], ephemeralTokens =
         [tok_row ''x'' True (Fin 10000000) (Fin 0) (Fin 0),
          (tok_row ''t'' False (Fin 10000000) (Fin 0) (Fin 0))\<lparr>deactivatedAt := Some 2000\<rparr>]\<rparr>)"
proof -
  have l: "by_token_first ''t'' (ephemeralTokens db_one) =
      Some (1, tok_row ''t'' True (Fin 10000000) (Fin 0) (Fin 0))"
    by (simp add: db_one_def tok_row_def)
  have s: "db_one\<lparr>ephemeralTokens := (ephemeralTokens db_one)
         [1 := (tok_row ''t'' True (Fin 10000000) (Fin 0) (Fin 0))
                 \<lparr>isActive := False, deactivatedAt := Some 2000\<rparr>]\<rparr> =
      \<lparr>users = [''user_1''], ephemeralTokens =
         [tok_row ''x'' True (Fin 10000000) (Fin 0) (Fin 0),
          (tok_row ''t'' False (Fin 10000000) (Fin 0) (Fin 0))\<lparr>deactivatedAt := Some 2000\<rparr>]\<rparr>"
    by (simp add: db_one_def tok_row_def)
  show ?thesis
    using deactivate_twice [OF l, of 1000 2000] unfolding s by blast
qed

section \<open>Secret format\<close>

lemma length_chars: "length chars = 62"
  by (simp add: chars_def)

lemma chars_alnum: "list_all is_alnum chars"
  by (simp add: chars_def is_alnum_def)

lemma char_at_in_range:
  assumes "0 \<le> k" "k < 62"
  shows "\<exists>c. char_at k = [c] \<and> is_alnum c"
proof -
  have "nat k < length chars" using assms by (simp add: length_chars)
  then have "chars ! nat k \<in> set chars" by (rule nth_mem)
  then have "is_alnum (chars ! nat k)" using chars_alnum by (simp add: list_all_iff)
  then show ?thesis using assms by (simp add: char_at_def length_chars)
qed

lemma concat_singletons:
  "\<forall>i \<in> set is. \<exists>c. f i = [c] \<and> P c \<Longrightarrow>
   length (concat (map f is)) = length is \<and> list_all P (concat (map f is))"
  by (induction "is") auto

lemma random_part_alnum:
  assumes "random_in_range ent"
  shows "length (random_part ent) = 32 \<and> list_all is_alnum (random_part ent)"
proof (cases ent)
  case (CryptoRandom randomValues)
  have "\<forall>i \<in> set [0..<32]. \<exists>c. char_at (int (unat (randomValues i) mod length chars)) = [c] \<and> is_alnum c"
    by (auto intro!: char_at_in_range simp: length_chars)
  from concat_singletons [OF this] show ?thesis using CryptoRandom by simp
next
  case (MathRandom random)
  have "\<forall>i \<in> set [0..<32]. \<exists>c. char_at \<lfloor>random i * real (length chars)\<rfloor> = [c] \<and> is_alnum c"
  proof
    fix i assume i: "i \<in> set [0..<32]"
    with assms MathRandom have r: "0 \<le> random i" "random i < 1"
      by (auto simp: list_all_iff)
    have "0 \<le> \<lfloor>random i * 62\<rfloor>" using r by simp
    moreover have "\<lfloor>random i * 62\<rfloor> < 62" using r by (simp add: floor_less_iff)
    ultimately show "\<exists>c. char_at \<lfloor>random i * real (length chars)\<rfloor> = [c] \<and> is_alnum c"
      using char_at_in_range by (simp add: length_chars)
  qed
  from concat_singletons [OF this] show ?thesis using MathRandom by simp
qed

lemma digit_char_is_digit: "is_digit (digit_char n)"
proof -
  have all: "list_all is_digit ''0123456789''"
    by (simp add: is_digit_def)
  have "n mod 10 < length ''0123456789''" by simp
  then have "''0123456789'' ! (n mod 10) \<in> set ''0123456789''" by (rule nth_mem)
  then show ?thesis
    using all unfolding digit_char_def list_all_iff by blast
qed

lemma decimal_digits: "decimal n \<noteq> [] \<and> list_all is_digit (decimal n)"
proof (induction n rule: decimal.induct)
  case (1 n)
  show ?case
  proof (cases "n < 10")
    case True
    then show ?thesis by (simp add: decimal.simps [of n] digit_char_is_digit)
  next
    case False
    with 1 show ?thesis by (simp add: decimal.simps [of n] digit_char_is_digit)
  qed
qed

text \<open>
  Claim C7. Every secret that token generation produces matches
  \<open>^glt_[A-Za-z0-9]{32}_[0-9]+$\<close>: the prefix \<open>glt_\<close>, 32 letters or digits, an underscore
  and the decimal clock reading, on the crypto path for any bytes and on the fallback path
  for any values of \<open>Math.random()\<close> in \<open>[0, 1)\<close>.
\<close>

theorem secret_matches_pattern:
  "random_in_range ent \<Longrightarrow> matches_secret_pattern (generateSecureToken ent now)"
proof -
  assume "random_in_range ent"
  then have p: "length (random_part ent) = 32" "list_all is_alnum (random_part ent)"
    using random_part_alnum by blast+
  have d: "decimal now \<noteq> []" "list_all is_digit (decimal now)"
    using decimal_digits by blast+
  show ?thesis
    using p d by (simp add: matches_secret_pattern_def generateSecureToken_def)
qed


theorem secret_matches_pattern_witness:
  "random_in_range (CryptoRandom (\<lambda>i. 255)) \<and>
   generateSecureToken (CryptoRandom (\<lambda>i. 255)) 1700000000000 =
     ''glt_HHHHHHHHHHHHHHHHHHHHHHHHHHHHHHHH_1700000000000'' \<and>
   matches_secret_pattern ''glt_HHHHHHHHHHHHHHHHHHHHHHHHHHHHHHHH_1700000000000'' \<and>
   random_in_range (MathRandom (\<lambda>i. 1 / 2)) \<and>
   generateSecureToken (MathRandom (\<lambda>i. 1 / 2)) 1700000000000 =
     ''glt_ffffffffffffffffffffffffffffffff_1700000000000'' \<and>
   matches_secret_pattern ''glt_ffffffffffffffffffffffffffffffff_1700000000000''"
proof -
  have a: "random_in_range (CryptoRandom (\<lambda>i. 255))" by simp
  have b: "random_in_range (MathRandom (\<lambda>i. 1 / 2))" by (simp add: list_all_iff)
  have va: "generateSecureToken (CryptoRandom (\<lambda>i. 255)) 1700000000000 =
      ''glt_HHHHHHHHHHHHHHHHHHHHHHHHHHHHHHHH_1700000000000''"
    by (simp add: generateSecureToken_def upt_rec char_at_def chars_def decimal.simps
        digit_char_def)
  have vb: "generateSecureToken (MathRandom (\<lambda>i. 1 / 2)) 1700000000000 =
      ''glt_ffffffffffffffffffffffffffffffff_1700000000000''"
    by (simp add: generateSecureToken_def upt_rec char_at_def chars_def decimal.simps
        digit_char_def)
  show ?thesis
    using a b secret_matches_pattern [OF a, of 1700000000000]
      secret_matches_pattern [OF b, of 1700000000000]
    unfolding va vb by blast
qed

section \<open>The quota invariant\<close>

lemma secret_H_generated: "generateSecureToken (CryptoRandom (\<lambda>i. 255)) 1000 = secret_H"
  by (simp add: generateSecureToken_def upt_rec char_at_def chars_def decimal.simps
        digit_char_def secret_H_def)

lemma generate_fresh:
  "generateEphemeralToken p db_fresh 1000 (CryptoRandom (\<lambda>i. 255)) ''user_1'' maxS maxM None =
     (Inr (Generated secret_H (Fin 3601000) (or_default maxS (Fin 5))
             (or_default maxM (Fin 1000)) 0),
      \<lparr>users = [''user_1''], ephemeralTokens =
        [\<lparr>token = secret_H, userId = ''user_1'', expiresAt = Fin 3601000,
          sessionsUsed = Fin 0, messagesUsed = Fin 0, maxSessions = or_default maxS (Fin 5),
          maxMessages = or_default maxM (Fin 1000), isActive = True, createdAt = 1000,
          lastUsed = 1000, deactivatedAt = None\<rparr>]\<rparr>)"
  by (simp add: generateEphemeralToken_def secret_H_generated db_fresh_def or_default_def
      TOKEN_EXPIRATION_MINUTES_def MAX_SESSIONS_PER_TOKEN_def MAX_MESSAGES_PER_TOKEN_def
      Let_def of_clock_def round64_numeral)

lemma safe_integerE:
  assumes "safe_integer x"
  obtains k :: int where "x = Fin (of_int k)" "\<bar>k\<bar> \<le> 2 ^ 53"
proof -
  from assms obtain a where x: "x = Fin a" and a: "a = of_int \<lfloor>a\<rfloor>" "\<bar>a\<bar> \<le> 2 ^ 53"
    by (cases x) (auto simp: safe_integer_def)
  have "\<bar>real_of_int \<lfloor>a\<rfloor>\<bar> \<le> 2 ^ 53" using a by simp
  then have "real_of_int \<bar>\<lfloor>a\<rfloor>\<bar> \<le> real_of_int (2 ^ 53)" by simp
  then have "\<bar>\<lfloor>a\<rfloor>\<bar> \<le> 2 ^ 53" by (simp only: of_int_le_iff)
  with x a(1) that show ?thesis by metis
qed

lemma safe_integerI: "\<bar>k\<bar> \<le> 2 ^ 53 \<Longrightarrow> safe_integer (Fin (of_int k))"
proof -
  assume "\<bar>k\<bar> \<le> 2 ^ 53"
  then have "real_of_int \<bar>k\<bar> \<le> real_of_int (2 ^ 53)" by (simp only: of_int_le_iff)
  then show ?thesis by (simp add: safe_integer_def)
qed

lemma safe_increment:
  assumes "safe_integer x" "safe_integer y" "\<not> num_ge x y" "unit_increment u"
  shows "safe_integer (fadd p x u) \<and> num_le (fadd p x u) y"
proof -
  from assms(1) obtain a :: int where x: "x = Fin (of_int a)" and a: "\<bar>a\<bar> \<le> 2 ^ 53"
    by (rule safe_integerE)
  from assms(2) obtain c :: int where y: "y = Fin (of_int c)" and c: "\<bar>c\<bar> \<le> 2 ^ 53"
    by (rule safe_integerE)
  from assms(3) have lt: "a < c" by (simp add: x y num_ge_Fin)
  from assms(4) consider "u = Fin 0" | "u = Fin 1" by (auto simp: unit_increment_def)
  then show ?thesis
  proof cases
    case 1
    have "fadd p x u = Fin (of_int a)" using a by (simp add: x 1 round64_int)
    then show ?thesis using a lt by (simp add: safe_integerI y num_le_Fin)
  next
    case 2
    have b: "\<bar>a + 1\<bar> \<le> 2 ^ 53" using a c lt by linarith
    have "fadd p x u = round64 p (of_int (a + 1))" by (simp add: x 2)
    then have "fadd p x u = Fin (of_int (a + 1))" using b by (simp only: round64_int)
    then show ?thesis using b lt by (simp add: safe_integerI [OF b] y num_le_Fin del: of_int_add)
  qed
qed

lemma list_all_update: "list_all P rs \<Longrightarrow> P r' \<Longrightarrow> list_all P (rs[i := r'])"
  by (induction rs arbitrary: i) (auto split: nat.splits)

lemma found_in_set: "by_token_first t rs = Some (i, r) \<Longrightarrow> r \<in> set rs"
  using by_token_first_Some nth_mem by metis

lemma valid_has_room:
  "isValid (fst (validateEphemeralToken d now t)) \<Longrightarrow> has_room (Some t) d"
  by (auto simp: validateEphemeralToken_def has_room_def split: option.splits if_splits)

lemma exec_keeps:
  assumes q: "within_quota d" and n: "integral d" and room: "has_room v d"
    and disc: "disciplined v x"
  shows "within_quota (exec p d x) \<and> integral (exec p d x) \<and>
         has_room (accepted_by d x) (exec p d x)"
proof (cases x)
  case (Pair now opn)
  show ?thesis
  proof (cases opn)
    case (Generate ent uid maxS maxM em)
    have z: "safe_integer (Fin 0)" using safe_integerI [of 0] by simp
    from disc Pair Generate q n show ?thesis
      by (simp add: generateEphemeralToken_def within_quota_def integral_def
          row_within_quota_def row_integral_def whole_bound_def z has_room_def Let_def)
  next
    case (Validate t)
    have "exec p d x = d" using Pair Validate by (simp add: validateEphemeralToken_def split: option.splits)
    moreover have "has_room (accepted_by d x) d"
      using Pair Validate valid_has_room by (simp add: has_room_def)
    ultimately show ?thesis using q n by simp
  next
    case (UpdateUsage t incS incM)
    from disc Pair UpdateUsage have v: "v = Some t"
      and inc: "unit_increment (arg_default incS (Fin 0))" "unit_increment (arg_default incM (Fin 0))"
      by simp_all
    from room v obtain i r where look: "by_token_first t (ephemeralTokens d) = Some (i, r)"
      and free: "\<not> num_ge (sessionsUsed r) (maxSessions r)"
        "\<not> num_ge (messagesUsed r) (maxMessages r)"
      by (auto simp: has_room_def split: option.splits)
    from look have "r \<in> set (ephemeralTokens d)" by (rule found_in_set)
    with n have ri: "row_integral r" by (simp add: integral_def list_all_iff)
    let ?r = "r\<lparr>sessionsUsed := fadd p (sessionsUsed r) (arg_default incS (Fin 0)),
                 messagesUsed := fadd p (messagesUsed r) (arg_default incM (Fin 0)),
                 lastUsed := now\<rparr>"
    have s: "safe_integer (fadd p (sessionsUsed r) (arg_default incS (Fin 0))) \<and>
             num_le (fadd p (sessionsUsed r) (arg_default incS (Fin 0))) (maxSessions r)"
      using ri free(1) inc(1) by (intro safe_increment) (simp_all add: row_integral_def)
    have m: "safe_integer (fadd p (messagesUsed r) (arg_default incM (Fin 0))) \<and>
             num_le (fadd p (messagesUsed r) (arg_default incM (Fin 0))) (maxMessages r)"
      using ri free(2) inc(2) by (intro safe_increment) (simp_all add: row_integral_def)
    have new: "row_within_quota ?r" "row_integral ?r"
      using s m ri by (simp_all add: row_within_quota_def row_integral_def)
    have ex: "exec p d x = d\<lparr>ephemeralTokens := (ephemeralTokens d)[i := ?r]\<rparr>"
      using Pair UpdateUsage look by (simp add: updateTokenUsage_def patch_found Let_def)
    show ?thesis
      unfolding ex using q n new Pair UpdateUsage
      by (simp add: within_quota_def integral_def list_all_update has_room_def)
  next
    case (Refresh t addMin)
    show ?thesis
    proof (cases "by_token_first t (ephemeralTokens d)")
      case None
      with Pair Refresh q n show ?thesis
        by (simp add: refreshEphemeralToken_def has_room_def)
    next
      case (Some a)
      obtain i r where a: "a = (i, r)" by (cases a)
      from Some a have "r \<in> set (ephemeralTokens d)" by (simp add: found_in_set)
      with q n have "row_within_quota r" "row_integral r"
        by (simp_all add: within_quota_def integral_def list_all_iff)
      then have "\<And>e. row_within_quota (r\<lparr>expiresAt := e, lastUsed := now\<rparr>)"
        "\<And>e. row_integral (r\<lparr>expiresAt := e, lastUsed := now\<rparr>)"
        by (simp_all add: row_within_quota_def row_integral_def)
      then show ?thesis
        using Pair Refresh Some a q n
        by (simp add: refreshEphemeralToken_def patch_found within_quota_def integral_def
            list_all_update Let_def has_room_def)
    qed
  next
    case (Deactivate t)
    show ?thesis
    proof (cases "by_token_first t (ephemeralTokens d)")
      case None
      with Pair Deactivate q n show ?thesis
        by (simp add: deactivateEphemeralToken_def has_room_def)
    next
      case (Some a)
      obtain i r where a: "a = (i, r)" by (cases a)
      from Some a have "r \<in> set (ephemeralTokens d)" by (simp add: found_in_set)
      with q n have "row_within_quota r" "row_integral r"
        by (simp_all add: within_quota_def integral_def list_all_iff)
      then have "row_within_quota (r\<lparr>isActive := False, deactivatedAt := Some now\<rparr>)"
        "row_integral (r\<lparr>isActive := False, deactivatedAt := Some now\<rparr>)"
        by (simp_all add: row_within_quota_def row_integral_def)
      then show ?thesis
        using Pair Deactivate Some a q n
        by (simp add: deactivateEphemeralToken_def patch_found within_quota_def integral_def
            list_all_update has_room_def)
    qed
  next
    case Cleanup
    with Pair q n show ?thesis
      by (simp add: cleanupExpiredTokens_def within_quota_def integral_def list_all_iff
          has_room_def)
  qed
qed

lemma disciplined_run_take:
  "disciplined_run p v d ops \<Longrightarrow> disciplined_run p v d (take k ops)"
proof (induction ops arbitrary: v d k)
  case Nil
  then show ?case by simp
next
  case (Cons x xs)
  then show ?case by (cases k) auto
qed

lemma run_within_quota:
  "within_quota d \<Longrightarrow> integral d \<Longrightarrow> has_room v d \<Longrightarrow> disciplined_run p v d ops \<Longrightarrow>
   within_quota (run p d ops)"
proof (induction ops arbitrary: v d)
  case Nil
  then show ?case by (simp add: run_def)
next
  case (Cons x xs)
  from Cons.prems have "disciplined v x" "disciplined_run p (accepted_by d x) (exec p d x) xs"
    by simp_all
  moreover from exec_keeps [OF Cons.prems(1-3) this(1)]
  have "within_quota (exec p d x)" "integral (exec p d x)"
    "has_room (accepted_by d x) (exec p d x)"
    by blast+
  ultimately have "within_quota (run p (exec p d x) xs)"
    using Cons.IH by blast
  then show ?case by (simp add: run_def)
qed

lemma overcount_on_every_platform:
  "\<not> within_quota (run p db_fresh
       [(1000, Generate (CryptoRandom (\<lambda>i. 255)) ''user_1'' None None None),
        (2000, UpdateUsage secret_H (Some (Fin 6)) None)])"
  by (simp add: run_def generate_fresh within_quota_def row_within_quota_def
      updateTokenUsage_def patch_def arg_default_def or_default_def round64_numeral
      round64_0 num_le_Fin Let_def)

text \<open>
  Claim C1 as stated fails: \<open>updateTokenUsage\<close> adds whatever increment it is given. On
  a fresh token with the default bound of 5 sessions, one call with
  \<open>incrementSessions = 6\<close> stores \<open>sessionsUsed = 6\<close>.
\<close>

theorem quota_counterexample:
  "\<not> within_quota (run exact db_fresh
       [(1000, Generate (CryptoRandom (\<lambda>i. 255)) ''user_1'' None None None),
        (2000, UpdateUsage secret_H (Some (Fin 6)) None)])"
  by (simp add: run_def generate_fresh within_quota_def row_within_quota_def
      updateTokenUsage_def patch_def arg_default_def or_default_def round64_numeral
      round64_0 num_le_Fin Let_def)

text \<open>
  A bound that is not a whole number is passed too, even when every update follows a
  successful validation and adds one: with \<open>maxSessions = 2.5\<close> the third such update
  stores \<open>sessionsUsed = 3\<close>.
\<close>

lemma fractional_bound_example:
  "isValid (fst (validateEphemeralToken (run exact db_fresh
     [(1000, Generate (CryptoRandom (\<lambda>i. 255)) ''user_1'' (Some (Fin (5 / 2))) None None)])
     1100 secret_H)) \<and>
   isValid (fst (validateEphemeralToken (run exact db_fresh
     [(1000, Generate (CryptoRandom (\<lambda>i. 255)) ''user_1'' (Some (Fin (5 / 2))) None None),
      (1100, Validate secret_H), (1200, UpdateUsage secret_H (Some (Fin 1)) None)])
     1300 secret_H)) \<and>
   isValid (fst (validateEphemeralToken (run exact db_fresh
     [(1000, Generate (CryptoRandom (\<lambda>i. 255)) ''user_1'' (Some (Fin (5 / 2))) None None),
      (1100, Validate secret_H), (1200, UpdateUsage secret_H (Some (Fin 1)) None),
      (1300, Validate secret_H), (1400, UpdateUsage secret_H (Some (Fin 1)) None)])
     1500 secret_H)) \<and>
   \<not> within_quota (run exact db_fresh
     [(1000, Generate (CryptoRandom (\<lambda>i. 255)) ''user_1'' (Some (Fin (5 / 2))) None None),
      (1100, Validate secret_H), (1200, UpdateUsage secret_H (Some (Fin 1)) None),
      (1300, Validate secret_H), (1400, UpdateUsage secret_H (Some (Fin 1)) None),
      (1500, Validate secret_H), (1600, UpdateUsage secret_H (Some (Fin 1)) None)])"
  by (simp add: run_def generate_fresh within_quota_def row_within_quota_def
      updateTokenUsage_def validateEphemeralToken_def patch_def arg_default_def
      or_default_def round64_numeral round64_0 round64_1 num_le_Fin num_ge_Fin num_gt_Fin
      of_clock_def Let_def)

text \<open>
  Claim C1, amended. In a sequential run of generate, validate, updateUsage, refresh,
  deactivate and cleanup, started in a state where every stored counter and bound is a
  whole number of magnitude at most \<open>2^53\<close> with \<open>sessionsUsed \<le> maxSessions\<close> and
  \<open>messagesUsed \<le> maxMessages\<close> for every token, both inequalities hold for every token
  after every operation, provided every generate asks for bounds that are whole numbers,
  not negative and at most \<open>2^53\<close>, and every updateUsage is the operation right after a
  successful validate of the same secret and adds 0 or 1 to each counter.
\<close>

theorem quota_under_discipline:
  "within_quota d \<Longrightarrow> integral d \<Longrightarrow> disciplined_run p None d ops \<Longrightarrow>
   within_quota (run p d (take k ops))"
proof -
  assume "within_quota d" "integral d" "disciplined_run p None d ops"
  moreover have "has_room None d" by (simp add: has_room_def)
  moreover have "disciplined_run p None d (take k ops)"
    using calculation(3) by (rule disciplined_run_take)
  ultimately show ?thesis using run_within_quota by blast
qed

theorem quota_under_discipline_witness:
  "within_quota db_fresh \<and> integral db_fresh \<and>
   disciplined_run exact None db_fresh
     [(1000, Generate (CryptoRandom (\<lambda>i. 255)) ''user_1'' (Some (Fin 1)) None None),
      (1500, Validate secret_H),
      (2000, UpdateUsage secret_H (Some (Fin 1)) None)] \<and>
   within_quota (run exact db_fresh
     [(1000, Generate (CryptoRandom (\<lambda>i. 255)) ''user_1'' (Some (Fin 1)) None None),
      (1500, Validate secret_H),
      (2000, UpdateUsage secret_H (Some (Fin 1)) None)])"
proof -
  let ?ops = "[(1000, Generate (CryptoRandom (\<lambda>i. 255)) ''user_1'' (Some (Fin 1)) None None),
      (1500, Validate secret_H),
      (2000, UpdateUsage secret_H (Some (Fin 1)) None)]"
  have a: "within_quota db_fresh"
    by (simp add: within_quota_def db_fresh_def)
  have i: "integral db_fresh"
    by (simp add: integral_def db_fresh_def)
  have w: "whole_bound (Fin 1)" "whole_bound (Fin 1000)"
    by (simp_all add: whole_bound_def safe_integer_def num_le_Fin)
  have b: "disciplined_run exact None db_fresh ?ops"
    by (simp add: generate_fresh validateEphemeralToken_def or_default_def arg_default_def
        MAX_SESSIONS_PER_TOKEN_def MAX_MESSAGES_PER_TOKEN_def w unit_increment_def
        of_clock_def num_gt_Fin num_ge_Fin)
  show ?thesis
    using a i b quota_under_discipline [OF a i b, of 3] by simp
qed

section \<open>The inactivity sweep\<close>

lemma map_of_map_delete:
  "map_of (map_delete k m) k' = (if k' = k then None else map_of m k')"
  by (induction m) (auto simp: map_delete_def)

lemma map_delete_absent:
  "map_of m k = None \<Longrightarrow> map_delete k m = m"
  by (induction m) (auto simp: map_delete_def split: if_splits)

lemma cleanup_loop_sessions:
  "activeSessions (cleanup_loop ct now xs st) =
     filter (\<lambda>(k, v). k \<notin> fst ` set (filter (\<lambda>(k, s). 900000 < int now - int (lastActivity s)) xs))
       (activeSessions st)"
proof (induction xs arbitrary: st)
  case Nil
  then show ?case by simp
next
  case (Cons x xs)
  obtain sid session where x: "x = (sid, session)" by (cases x)
  show ?case
    unfolding x cleanup_loop.simps Cons.IH
    by (auto simp: TIMEOUT_MS_def map_delete_def Let_def intro!: filter_cong)
qed

lemma cleanup_loop_closeCalls:
  "closeCalls (cleanup_loop ct now xs st) =
     closeCalls st @ map (\<lambda>(k, s). geminiConnection s)
       (filter (\<lambda>(k, s). 900000 < int now - int (lastActivity s) \<and> sessionIsActive s) xs)"
proof (induction xs arbitrary: st)
  case Nil
  then show ?case by simp
next
  case (Cons x xs)
  obtain sid session where x: "x = (sid, session)" by (cases x)
  show ?case
    unfolding x cleanup_loop.simps Cons.IH
    by (simp add: TIMEOUT_MS_def Let_def)
qed

lemma cleanup_loop_database:
  "database (cleanup_loop ct now xs st) = database st"
proof (induction xs arbitrary: st)
  case Nil
  then show ?case by simp
next
  case (Cons x xs)
  obtain sid session where x: "x = (sid, session)" by (cases x)
  show ?case
    unfolding x cleanup_loop.simps Cons.IH
    by (simp add: Let_def)
qed

lemma distinct_keys_filter:
  assumes "distinct (map fst m)"
  shows "filter (\<lambda>(k, v). k \<notin> fst ` set (filter (\<lambda>(k, s). P s) m)) m =
         filter (\<lambda>(k, s). \<not> P s) m"
proof (rule filter_cong [OF refl])
  fix x assume xin: "x \<in> set m"
  obtain k v where x: "x = (k, v)" by (cases x)
  have "k \<in> fst ` set (filter (\<lambda>(k, s). P s) m) \<longleftrightarrow> P v"
  proof
    assume "k \<in> fst ` set (filter (\<lambda>(k, s). P s) m)"
    then obtain v' where v': "(k, v') \<in> set m" "P v'" by auto
    from assms xin v'(1) x have "v' = v"
      by (meson eq_key_imp_eq_value)
    with v' show "P v" by simp
  next
    assume "P v"
    with xin x show "k \<in> fst ` set (filter (\<lambda>(k, s). P s) m)" by force
  qed
  then show "(case x of (k, v) \<Rightarrow> k \<notin> fst ` set (filter (\<lambda>(k, s). P s) m)) =
             (case x of (k, s) \<Rightarrow> \<not> P s)"
    by (simp add: x)
qed

lemma cleanup_loop_closeErrors:
  "closeErrors (cleanup_loop ct now xs st) =
     closeErrors st @ map fst
       (filter (\<lambda>(k, s). 900000 < int now - int (lastActivity s) \<and> sessionIsActive s \<and>
                  ct (geminiConnection s)) xs)"
proof (induction xs arbitrary: st)
  case Nil
  then show ?case by simp
next
  case (Cons x xs)
  obtain sid session where x: "x = (sid, session)" by (cases x)
  show ?case
    unfolding x cleanup_loop.simps Cons.IH
    by (simp add: TIMEOUT_MS_def Let_def)
qed

text \<open>
  Claim C8. The sweep removes from the registry exactly the sessions whose \<open>lastActivity\<close>
  is more than 15 minutes (900000 ms) before the sweep's clock reading, and keeps the
  others in order. Whether \<open>close()\<close> throws on some connection changes neither the
  registry the sweep leaves nor the connections it calls \<open>close()\<close> on (every timed-out
  session still marked active, in map order): a failure is only logged, for that session.
\<close>

theorem sweep_removes_timed_out:
  assumes "distinct (map fst (activeSessions st))"
  shows "activeSessions (cleanupInactiveSessions close_throws now st) =
           filter (\<lambda>(sid, s). \<not> 900000 < int now - int (lastActivity s)) (activeSessions st) \<and>
         closeCalls (cleanupInactiveSessions close_throws now st) =
           closeCalls st @ map (\<lambda>(sid, s). geminiConnection s)
             (filter (\<lambda>(sid, s). 900000 < int now - int (lastActivity s) \<and> sessionIsActive s)
                (activeSessions st)) \<and>
         closeErrors (cleanupInactiveSessions close_throws now st) =
           closeErrors st @ map fst
             (filter (\<lambda>(sid, s). 900000 < int now - int (lastActivity s) \<and> sessionIsActive s \<and>
                        close_throws (geminiConnection s))
                (activeSessions st)) \<and>
         database (cleanupInactiveSessions close_throws now st) = database st"
  using distinct_keys_filter [OF assms, of "\<lambda>s. 900000 < int now - int (lastActivity s)"]
  by (simp add: cleanupInactiveSessions_def cleanup_loop_sessions cleanup_loop_closeCalls
      cleanup_loop_closeErrors cleanup_loop_database)

theorem sweep_removes_timed_out_witness:
  "distinct (map fst (activeSessions proxy_three)) \<and>
   activeSessions (cleanupInactiveSessions (\<lambda>c. c = 1) 900050 proxy_three) =
     [(''s2'', sess ''s2'' 2 True 100000), (''s3'', sess ''s3'' 3 True 50),
      (''s4'', sess ''s4'' 4 False 60)] \<and>
   closeCalls (cleanupInactiveSessions (\<lambda>c. c = 1) 900050 proxy_three) = [1] \<and>
   activeSessions (cleanupInactiveSessions (\<lambda>c. c = 1) 1000000 proxy_three) =
     [(''s2'', sess ''s2'' 2 True 100000)] \<and>
   closeCalls (cleanupInactiveSessions (\<lambda>c. c = 1) 1000000 proxy_three) = [1, 3] \<and>
   closeErrors (cleanupInactiveSessions (\<lambda>c. c = 1) 1000000 proxy_three) = [''s1'']"
proof -
  have d: "distinct (map fst (activeSessions proxy_three))"
    by (simp add: proxy_three_def)
  have e: "closeErrors (cleanupInactiveSessions (\<lambda>c. c = 1) 1000000 proxy_three) = [''s1'']"
    by (simp add: cleanupInactiveSessions_def proxy_three_def sess_def TIMEOUT_MS_def
        map_delete_def)
  show ?thesis
    using d e sweep_removes_timed_out [OF d, of "\<lambda>c. c = 1" 900050]
      sweep_removes_timed_out [OF d, of "\<lambda>c. c = 1" 1000000]
    by (simp add: proxy_three_def sess_def)
qed

section \<open>Closing a session\<close>

lemma map_delete_replace:
  "filter (\<lambda>(k', v'). k' \<noteq> k) (map (\<lambda>(k', v'). if k' = k then (k', v) else (k', v')) m) =
   filter (\<lambda>(k', v'). k' \<noteq> k) m"
  by (induction m) auto

lemma map_delete_map_set:
  "map_delete k (map_set k v m) = map_delete k m"
  by (simp add: map_delete_def map_set_def map_delete_replace)

text \<open>
  Claim C10. \<open>close_session\<close> is idempotent. For every session id the request carries
  (an empty or missing id is not one: the handler answers "sessionId is required"), whether
  the session is registered, was closed before or never existed, the answer is
  \<open>session_closed\<close> with status 200 and afterwards the registry has no entry for the id;
  the other entries and the database are untouched; when the session is absent the whole
  state is unchanged; and a second close of the same id answers \<open>session_closed\<close> again
  and changes nothing.
\<close>

theorem close_session_idempotent:
  assumes "sid \<noteq> []"
  shows "fst (close_session close_throws st (Some sid)) = Response 200 (StatusBody ''session_closed'') \<and>
         map_get sid (activeSessions (snd (close_session close_throws st (Some sid)))) = None \<and>
         activeSessions (snd (close_session close_throws st (Some sid))) =
           filter (\<lambda>(k, s). k \<noteq> sid) (activeSessions st) \<and>
         database (snd (close_session close_throws st (Some sid))) = database st \<and>
         (map_get sid (activeSessions st) = None \<longrightarrow>
            snd (close_session close_throws st (Some sid)) = st) \<and>
         close_session close_throws' (snd (close_session close_throws st (Some sid))) (Some sid) =
           (Response 200 (StatusBody ''session_closed''),
            snd (close_session close_throws st (Some sid)))"
proof (cases "map_get sid (activeSessions st)")
  case None
  then have "map_delete sid (activeSessions st) = activeSessions st"
    by (simp add: map_get_def map_delete_absent)
  then show ?thesis
    using assms None
    by (simp add: close_session_def truthy_def map_delete_def)
next
  case (Some sessionData)
  have gone: "map_get sid (map_delete sid m) = None" for m
    by (simp add: map_get_def map_of_map_delete)
  show ?thesis
    using assms Some
    by (simp add: close_session_def truthy_def Let_def gone map_delete_map_set)
      (simp add: map_delete_def)
qed

theorem close_session_idempotent_witness:
  "''s1'' \<noteq> [] \<and>
   close_session (\<lambda>c. False) proxy_three (Some ''s1'') =
     (Response 200 (StatusBody ''session_closed''),
      proxy_three\<lparr>activeSessions := [(''s2'', sess ''s2'' 2 True 100000),
         (''s3'', sess ''s3'' 3 True 50), (''s4'', sess ''s4'' 4 False 60)],
         closeCalls := [1]\<rparr>) \<and>
   close_session (\<lambda>c. False) (snd (close_session (\<lambda>c. False) proxy_three (Some ''s1''))) (Some ''s1'') =
     (Response 200 (StatusBody ''session_closed''),
      snd (close_session (\<lambda>c. False) proxy_three (Some ''s1''))) \<and>
   close_session (\<lambda>c. False) proxy_three (Some ''never'') =
     (Response 200 (StatusBody ''session_closed''), proxy_three)"
proof -
  have n: "''s1'' \<noteq> []" "''never'' \<noteq> []" by simp_all
  have absent: "map_get ''never'' (activeSessions proxy_three) = None"
    by (simp add: map_get_def proxy_three_def)
  have first: "close_session (\<lambda>c. False) proxy_three (Some ''s1'') =
     (Response 200 (StatusBody ''session_closed''),
      proxy_three\<lparr>activeSessions := [(''s2'', sess ''s2'' 2 True 100000),
         (''s3'', sess ''s3'' 3 True 50), (''s4'', sess ''s4'' 4 False 60)],
         closeCalls := [1]\<rparr>)"
    by (simp add: close_session_def truthy_def map_get_def proxy_three_def map_set_def
        map_delete_def sess_def)
  have second: "close_session (\<lambda>c. False)
       (snd (close_session (\<lambda>c. False) proxy_three (Some ''s1''))) (Some ''s1'') =
     (Response 200 (StatusBody ''session_closed''),
      snd (close_session (\<lambda>c. False) proxy_three (Some ''s1'')))"
    using close_session_idempotent [OF n(1), of "\<lambda>c. False" proxy_three "\<lambda>c. False"]
    by blast
  have never: "close_session (\<lambda>c. False) proxy_three (Some ''never'') =
     (Response 200 (StatusBody ''session_closed''), proxy_three)"
    using absent close_session_idempotent [OF n(2), of "\<lambda>c. False" proxy_three "\<lambda>c. False"]
    by (simp add: prod_eq_iff)
  from n(1) first second never show ?thesis by blast
qed

section \<open>Session quota\<close>

lemma by_token_first_append:
  "by_token_first t rs = None \<Longrightarrow> token r = t \<Longrightarrow>
   by_token_first t (rs @ [r]) = Some (length rs, r)"
  by (induction rs) (auto split: if_splits)

lemma map_of_replace:
  "map_of (map (\<lambda>(k', v'). if k' = k then (k', v) else (k', v')) m) k =
     (if k \<in> fst ` set m then Some v else None)"
proof (induction m)
  case Nil
  then show ?case by simp
next
  case (Cons a m)
  obtain k0 v0 where a: "a = (k0, v0)" by (cases a)
  show ?case
  proof (cases "k0 = k")
    case True
    then show ?thesis by (simp add: a)
  next
    case False
    then show ?thesis using Cons.IH by (simp add: a)
  qed
qed

lemma map_get_map_set: "map_get k (map_set k v m) = Some v"
proof (cases "k \<in> fst ` set m")
  case True
  then show ?thesis by (simp add: map_get_def map_set_def map_of_replace)
next
  case False
  then have "map_of m k = None" by (simp add: map_of_eq_None_iff)
  with False show ?thesis by (simp add: map_get_def map_set_def map_add_def)
qed

lemma create_session_accept:
  assumes look: "by_token_first tok (ephemeralTokens (database st)) = Some (i, r)"
    and ok: "isActive r" "\<not> num_gt (of_clock (c_validateAt c)) (expiresAt r)"
      "\<not> num_ge (sessionsUsed r) (maxSessions r)"
      "\<not> num_ge (messagesUsed r) (maxMessages r)"
    and req: "truthy (c_userId c)" "c_ephemeralToken c = Some tok" "tok \<noteq> []"
      "c_connection c = Some g"
  shows "fst (create_session p st c) =
           Response 200 (SessionCreated (c_newSessionId c) ''connected'' MODEL)"
    and "by_token_first tok (ephemeralTokens (database (snd (create_session p st c)))) =
           Some (i, r\<lparr>sessionsUsed := fadd p (sessionsUsed r) (Fin 1),
                        messagesUsed := fadd p (messagesUsed r) (Fin 0),
                        lastUsed := c_updateAt c\<rparr>)"
    and "map_get (c_newSessionId c) (activeSessions (snd (create_session p st c))) \<noteq> None"
proof -
  have tok: "token r = tok" using look by_token_first_Some by blast
  have chk: "session_token_check p (database st) c =
      Inr ((database st)\<lparr>ephemeralTokens := (ephemeralTokens (database st))
        [i := r\<lparr>sessionsUsed := fadd p (sessionsUsed r) (Fin 1),
                messagesUsed := fadd p (messagesUsed r) (Fin 0),
                lastUsed := c_updateAt c\<rparr>]\<rparr>)"
    using look ok req(2,3)
    by (simp add: session_token_check_def validateEphemeralToken_def updateTokenUsage_def
        patch_found arg_default_def Let_def)
  show "fst (create_session p st c) =
           Response 200 (SessionCreated (c_newSessionId c) ''connected'' MODEL)"
    using chk req by (simp add: create_session_def)
  show "by_token_first tok (ephemeralTokens (database (snd (create_session p st c)))) =
           Some (i, r\<lparr>sessionsUsed := fadd p (sessionsUsed r) (Fin 1),
                        messagesUsed := fadd p (messagesUsed r) (Fin 0),
                        lastUsed := c_updateAt c\<rparr>)"
    using chk req look tok by (simp add: create_session_def by_token_first_update)
  show "map_get (c_newSessionId c) (activeSessions (snd (create_session p st c))) \<noteq> None"
    using chk req by (simp add: create_session_def map_get_map_set)
qed

lemma create_session_reject:
  assumes look: "by_token_first tok (ephemeralTokens (database st)) = Some (i, r)"
    and ok: "isActive r" "\<not> num_gt (of_clock (c_validateAt c)) (expiresAt r)"
      "num_ge (sessionsUsed r) (maxSessions r)"
    and req: "truthy (c_userId c)" "c_ephemeralToken c = Some tok" "tok \<noteq> []"
  shows "create_session p st c =
     (Response 403 (ErrorBody ''Token validation failed: Session limit exceeded''), st)"
  using look ok req
  by (simp add: create_session_def session_token_check_def validateEphemeralToken_def)

lemma not_gt_of_le: "num_le x y \<Longrightarrow> \<not> num_gt x y"
  by (simp add: num_le_def num_gt_def)

lemma not_ge_of_lt: "num_lt x y \<Longrightarrow> \<not> num_ge x y"
  by (simp add: num_ge_def num_le_def)

text \<open>
  Claim C4. A token is issued with \<open>maxSessions = 3\<close> (under a secret no older row has,
  with a positive message bound). Four \<open>create_session\<close> requests follow, each with a
  user id and that token, each validated no later than the token's \<open>expiresAt\<close>, the
  provider opening a connection for the first three. Then the first three answer 200
  \<open>connected\<close> and register their session, the stored \<open>sessionsUsed\<close> goes from 0 to 1,
  2 and 3, and the fourth answers 403 with "Session limit exceeded" and leaves the whole
  state, the registry included, as it was. This holds on every platform, the counts being
  exact in binary64.
\<close>

theorem session_quota_scenario:
  assumes gen: "generateEphemeralToken p (database st) g_now ent owner (Some (Fin 3)) maxM expMin =
                  (Inr (Generated tok ex ms mm tid), d1)"
    and fresh: "by_token_first tok (ephemeralTokens (database st)) = None"
    and msgs: "num_lt (Fin 0) mm"
    and c1: "truthy (c_userId c1)" "c_ephemeralToken c1 = Some tok"
      "num_le (of_clock (c_validateAt c1)) ex" "c_connection c1 \<noteq> None"
    and c2: "truthy (c_userId c2)" "c_ephemeralToken c2 = Some tok"
      "num_le (of_clock (c_validateAt c2)) ex" "c_connection c2 \<noteq> None"
    and c3: "truthy (c_userId c3)" "c_ephemeralToken c3 = Some tok"
      "num_le (of_clock (c_validateAt c3)) ex" "c_connection c3 \<noteq> None"
    and c4: "truthy (c_userId c4)" "c_ephemeralToken c4 = Some tok"
      "num_le (of_clock (c_validateAt c4)) ex"
  shows "fst (create_sessions p (st\<lparr>database := d1\<rparr>) [c1, c2, c3, c4]) =
           [Response 200 (SessionCreated (c_newSessionId c1) ''connected'' MODEL),
            Response 200 (SessionCreated (c_newSessionId c2) ''connected'' MODEL),
            Response 200 (SessionCreated (c_newSessionId c3) ''connected'' MODEL),
            Response 403 (ErrorBody ''Token validation failed: Session limit exceeded'')] \<and>
         stored_sessionsUsed (st\<lparr>database := d1\<rparr>) tok = Some (Fin 0) \<and>
         stored_sessionsUsed (snd (create_sessions p (st\<lparr>database := d1\<rparr>) [c1])) tok =
           Some (Fin 1) \<and>
         stored_sessionsUsed (snd (create_sessions p (st\<lparr>database := d1\<rparr>) [c1, c2])) tok =
           Some (Fin 2) \<and>
         stored_sessionsUsed (snd (create_sessions p (st\<lparr>database := d1\<rparr>) [c1, c2, c3])) tok =
           Some (Fin 3) \<and>
         map_get (c_newSessionId c1)
           (activeSessions (snd (create_sessions p (st\<lparr>database := d1\<rparr>) [c1]))) \<noteq> None \<and>
         map_get (c_newSessionId c2)
           (activeSessions (snd (create_sessions p (st\<lparr>database := d1\<rparr>) [c1, c2]))) \<noteq> None \<and>
         map_get (c_newSessionId c3)
           (activeSessions (snd (create_sessions p (st\<lparr>database := d1\<rparr>) [c1, c2, c3]))) \<noteq> None \<and>
         snd (create_sessions p (st\<lparr>database := d1\<rparr>) [c1, c2, c3, c4]) =
           snd (create_sessions p (st\<lparr>database := d1\<rparr>) [c1, c2, c3])"
proof -
  let ?s0 = "st\<lparr>database := d1\<rparr>"
  let ?s1 = "snd (create_session p ?s0 c1)"
  let ?s2 = "snd (create_session p ?s1 c2)"
  let ?s3 = "snd (create_session p ?s2 c3)"
  define i where "i = length (ephemeralTokens (database st))"
  define r0 where "r0 = \<lparr>token = tok, userId = owner, expiresAt = ex,
                sessionsUsed = Fin 0, messagesUsed = Fin 0, maxSessions = Fin 3,
                maxMessages = mm, isActive = True, createdAt = g_now, lastUsed = g_now,
                deactivatedAt = None\<rparr>"
  define r1 where "r1 = r0\<lparr>sessionsUsed := Fin 1, lastUsed := c_updateAt c1\<rparr>"
  define r2 where "r2 = r0\<lparr>sessionsUsed := Fin 2, lastUsed := c_updateAt c2\<rparr>"
  define r3 where "r3 = r0\<lparr>sessionsUsed := Fin 3, lastUsed := c_updateAt c3\<rparr>"
  have sums: "fadd p (Fin 0) (Fin 1) = Fin 1" "fadd p (Fin 1) (Fin 1) = Fin 2"
    "fadd p (Fin 2) (Fin 1) = Fin 3" "fadd p (Fin 0) (Fin 0) = Fin 0"
    by (simp_all add: round64_numeral round64_0 round64_1)
  from gen have g: "tok = generateSecureToken ent g_now"
    and d1: "d1 = (database st)\<lparr>ephemeralTokens := ephemeralTokens (database st) @ [r0]\<rparr>"
    by (auto simp: generateEphemeralToken_def Let_def r0_def or_default_def
        MAX_SESSIONS_PER_TOKEN_def split: if_splits)
  from g have ne: "tok \<noteq> []" by (simp add: generateSecureToken_def)
  have l0: "by_token_first tok (ephemeralTokens (database ?s0)) = Some (i, r0)"
    using fresh by (simp add: d1 i_def by_token_first_append r0_def)
  obtain g1 g2 g3 where conn: "c_connection c1 = Some g1" "c_connection c2 = Some g2"
    "c_connection c3 = Some g3"
    using c1(4) c2(4) c3(4) by auto
  have room: "\<not> num_ge (Fin 0) mm" using msgs by (rule not_ge_of_lt)
  have live: "\<not> num_gt (of_clock (c_validateAt c1)) ex"
    "\<not> num_gt (of_clock (c_validateAt c2)) ex" "\<not> num_gt (of_clock (c_validateAt c3)) ex"
    "\<not> num_gt (of_clock (c_validateAt c4)) ex"
    using c1(3) c2(3) c3(3) c4(3) by (simp_all add: not_gt_of_le)
  have f0: "isActive r0" "\<not> num_gt (of_clock (c_validateAt c1)) (expiresAt r0)"
    "\<not> num_ge (sessionsUsed r0) (maxSessions r0)"
    "\<not> num_ge (messagesUsed r0) (maxMessages r0)"
    using room live by (simp_all add: r0_def num_ge_Fin)
  have n0: "r0\<lparr>sessionsUsed := fadd p (sessionsUsed r0) (Fin 1),
              messagesUsed := fadd p (messagesUsed r0) (Fin 0),
              lastUsed := c_updateAt c1\<rparr> = r1"
    by (simp add: r0_def r1_def sums round64_numeral round64_0 round64_1)
  have a1: "fst (create_session p ?s0 c1) =
      Response 200 (SessionCreated (c_newSessionId c1) ''connected'' MODEL)"
    and l1: "by_token_first tok (ephemeralTokens (database ?s1)) = Some (i, r1)"
    and m1: "map_get (c_newSessionId c1) (activeSessions ?s1) \<noteq> None"
    using create_session_accept [OF l0 f0 c1(1,2) ne conn(1), of p] unfolding n0
    by simp_all
  have f1: "isActive r1" "\<not> num_gt (of_clock (c_validateAt c2)) (expiresAt r1)"
    "\<not> num_ge (sessionsUsed r1) (maxSessions r1)"
    "\<not> num_ge (messagesUsed r1) (maxMessages r1)"
    using room live by (simp_all add: r0_def r1_def num_ge_Fin)
  have n1: "r1\<lparr>sessionsUsed := fadd p (sessionsUsed r1) (Fin 1),
              messagesUsed := fadd p (messagesUsed r1) (Fin 0),
              lastUsed := c_updateAt c2\<rparr> = r2"
    by (simp add: r0_def r1_def r2_def sums round64_numeral round64_0 round64_1)
  have a2: "fst (create_session p ?s1 c2) =
      Response 200 (SessionCreated (c_newSessionId c2) ''connected'' MODEL)"
    and l2: "by_token_first tok (ephemeralTokens (database ?s2)) = Some (i, r2)"
    and m2: "map_get (c_newSessionId c2) (activeSessions ?s2) \<noteq> None"
    using create_session_accept [OF l1 f1 c2(1,2) ne conn(2), of p] unfolding n1
    by simp_all
  have f2: "isActive r2" "\<not> num_gt (of_clock (c_validateAt c3)) (expiresAt r2)"
    "\<not> num_ge (sessionsUsed r2) (maxSessions r2)"
    "\<not> num_ge (messagesUsed r2) (maxMessages r2)"
    using room live by (simp_all add: r0_def r2_def num_ge_Fin)
  have n2: "r2\<lparr>sessionsUsed := fadd p (sessionsUsed r2) (Fin 1),
              messagesUsed := fadd p (messagesUsed r2) (Fin 0),
              lastUsed := c_updateAt c3\<rparr> = r3"
    by (simp add: r0_def r2_def r3_def sums round64_numeral round64_0 round64_1)
  have a3: "fst (create_session p ?s2 c3) =
      Response 200 (SessionCreated (c_newSessionId c3) ''connected'' MODEL)"
    and l3: "by_token_first tok (ephemeralTokens (database ?s3)) = Some (i, r3)"
    and m3: "map_get (c_newSessionId c3) (activeSessions ?s3) \<noteq> None"
    using create_session_accept [OF l2 f2 c3(1,2) ne conn(3), of p] unfolding n2
    by simp_all
  have f3: "isActive r3" "\<not> num_gt (of_clock (c_validateAt c4)) (expiresAt r3)"
    "num_ge (sessionsUsed r3) (maxSessions r3)"
    using live by (simp_all add: r0_def r3_def num_ge_Fin)
  have a4: "create_session p ?s3 c4 =
     (Response 403 (ErrorBody ''Token validation failed: Session limit exceeded''), ?s3)"
    using create_session_reject [OF l3 f3 c4(1,2) ne] by simp
  have u: "stored_sessionsUsed ?s0 tok = Some (Fin 0)"
    "stored_sessionsUsed ?s1 tok = Some (Fin 1)"
    "stored_sessionsUsed ?s2 tok = Some (Fin 2)"
    "stored_sessionsUsed ?s3 tok = Some (Fin 3)"
    unfolding stored_sessionsUsed_def l0 l1 l2 l3
    by (simp_all add: r0_def r1_def r2_def r3_def)
  show ?thesis
    using a1 a2 a3 a4 u m1 m2 m3
    by (simp add: split_beta Let_def)
qed

theorem session_quota_scenario_witness:
  "generateEphemeralToken exact (database proxy_fresh) 1000 (CryptoRandom (\<lambda>i. 255)) ''user_1''
     (Some (Fin 3)) None None =
     (Inr (Generated secret_H (Fin 3601000) (Fin 3) (Fin 1000) 0), db_issued) \<and>
   by_token_first secret_H (ephemeralTokens (database proxy_fresh)) = None \<and>
   fst (create_sessions exact (proxy_fresh\<lparr>database := db_issued\<rparr>)
          [call 1 ''gemini-1'', call 2 ''gemini-2'', call 3 ''gemini-3'', call 4 ''gemini-4'']) =
     [Response 200 (SessionCreated ''gemini-1'' ''connected'' MODEL),
      Response 200 (SessionCreated ''gemini-2'' ''connected'' MODEL),
      Response 200 (SessionCreated ''gemini-3'' ''connected'' MODEL),
      Response 403 (ErrorBody ''Token validation failed: Session limit exceeded'')] \<and>
   stored_sessionsUsed (snd (create_sessions exact (proxy_fresh\<lparr>database := db_issued\<rparr>)
          [call 1 ''gemini-1'', call 2 ''gemini-2'', call 3 ''gemini-3''])) secret_H =
     Some (Fin 3) \<and>
   snd (create_sessions exact (proxy_fresh\<lparr>database := db_issued\<rparr>)
          [call 1 ''gemini-1'', call 2 ''gemini-2'', call 3 ''gemini-3'', call 4 ''gemini-4'']) =
     snd (create_sessions exact (proxy_fresh\<lparr>database := db_issued\<rparr>)
          [call 1 ''gemini-1'', call 2 ''gemini-2'', call 3 ''gemini-3''])"
proof -
  have gen: "generateEphemeralToken exact (database proxy_fresh) 1000 (CryptoRandom (\<lambda>i. 255))
      ''user_1'' (Some (Fin 3)) None None =
      (Inr (Generated secret_H (Fin 3601000) (Fin 3) (Fin 1000) 0), db_issued)"
    by (simp add: proxy_fresh_def generate_fresh or_default_def db_issued_def)
  have fresh: "by_token_first secret_H (ephemeralTokens (database proxy_fresh)) = None"
    by (simp add: proxy_fresh_def db_fresh_def)
  have msgs: "num_lt (Fin 0) (Fin 1000)" by simp
  let ?c1 = "call 1 ''gemini-1''" and ?c2 = "call 2 ''gemini-2''"
  let ?c3 = "call 3 ''gemini-3''" and ?c4 = "call 4 ''gemini-4''"
  have c1: "truthy (c_userId ?c1)" "c_ephemeralToken ?c1 = Some secret_H"
    "num_le (of_clock (c_validateAt ?c1)) (Fin 3601000)" "c_connection ?c1 \<noteq> None"
    by (simp_all add: call_def truthy_def of_clock_def num_le_Fin)
  have c2: "truthy (c_userId ?c2)" "c_ephemeralToken ?c2 = Some secret_H"
    "num_le (of_clock (c_validateAt ?c2)) (Fin 3601000)" "c_connection ?c2 \<noteq> None"
    by (simp_all add: call_def truthy_def of_clock_def num_le_Fin)
  have c3: "truthy (c_userId ?c3)" "c_ephemeralToken ?c3 = Some secret_H"
    "num_le (of_clock (c_validateAt ?c3)) (Fin 3601000)" "c_connection ?c3 \<noteq> None"
    by (simp_all add: call_def truthy_def of_clock_def num_le_Fin)
  have c4: "truthy (c_userId ?c4)" "c_ephemeralToken ?c4 = Some secret_H"
    "num_le (of_clock (c_validateAt ?c4)) (Fin 3601000)"
    by (simp_all add: call_def truthy_def of_clock_def num_le_Fin)
  have sid: "c_newSessionId (call n s) = s" for n s
    by (simp add: call_def)
  show ?thesis
    using gen fresh session_quota_scenario [OF gen fresh msgs c1 c2 c3 c4]
    unfolding sid by blast
qed

section \<open>Corrupted or expired cache\<close>

text \<open>
  Claim C9. In a browser, when the cache holds under \<open>gemini_token_info\<close> a record (a
  non-empty string) that \<open>JSON.parse\<close> cannot read, or one whose \<open>expiresAt\<close> is before
  the clock reading, \<open>getTokenInfo\<close> removes both cached keys and returns \<open>null\<close>, and
  \<open>isTokenValid\<close> returns false (clearing the cache the same way). Both are total: the
  throw of \<open>JSON.parse\<close> is a branch that returns.
\<close>

theorem corrupt_cache_is_absent:
  assumes "window" and "ls TOKEN_INFO_KEY = Some s" and "s \<noteq> []"
    and "JSON_parse s = None \<or> (\<exists>info. JSON_parse s = Some info \<and> info_expiresAt info < int now)"
  shows "getTokenInfo JSON_parse window ls now =
           (None, ls(TOKEN_KEY := None, TOKEN_INFO_KEY := None)) \<and>
         isTokenValid JSON_parse window ls now now' =
           (False, ls(TOKEN_KEY := None, TOKEN_INFO_KEY := None))"
proof -
  have g: "getTokenInfo JSON_parse window ls now =
           (None, ls(TOKEN_KEY := None, TOKEN_INFO_KEY := None))"
    using assms by (auto simp: getTokenInfo_def clearToken_def)
  then show ?thesis by (simp add: isTokenValid_def)
qed

theorem corrupt_cache_is_absent_witness:
  "getTokenInfo parse_example True cache_corrupt 1000 = (None, Map.empty) \<and>
   isTokenValid parse_example True cache_corrupt 1000 1001 = (False, Map.empty) \<and>
   getTokenInfo parse_example True cache_old 6000 = (None, Map.empty) \<and>
   isTokenValid parse_example True cache_old 6000 6001 = (False, Map.empty)"
proof -
  have a: "cache_corrupt TOKEN_INFO_KEY = Some ''{ token: glt_HH''" "''{ token: glt_HH'' \<noteq> []"
    "parse_example ''{ token: glt_HH'' = None \<or>
      (\<exists>info. parse_example ''{ token: glt_HH'' = Some info \<and> info_expiresAt info < int 1000)"
    by (simp_all add: cache_corrupt_def parse_example_def)
  have b: "cache_old TOKEN_INFO_KEY = Some ''stored info_old''" "''stored info_old'' \<noteq> []"
    "parse_example ''stored info_old'' = None \<or>
      (\<exists>info. parse_example ''stored info_old'' = Some info \<and> info_expiresAt info < int 6000)"
    by (simp_all add: cache_old_def parse_example_def info_old_def)
  have e: "cache_corrupt(TOKEN_KEY := None, TOKEN_INFO_KEY := None) = Map.empty"
    "cache_old(TOKEN_KEY := None, TOKEN_INFO_KEY := None) = Map.empty"
    by (auto simp: cache_corrupt_def cache_old_def)
  show ?thesis
    using
      corrupt_cache_is_absent [where window = True and ls = cache_corrupt
        and JSON_parse = parse_example and s = "''{ token: glt_HH''" and now = 1000
        and now' = 1001, OF TrueI a]
      corrupt_cache_is_absent [where window = True and ls = cache_old
        and JSON_parse = parse_example and s = "''stored info_old''" and now = 6000
        and now' = 6001, OF TrueI b]
    unfolding e by blast
qed

end
